theory Spec2Isabelle
  imports Main "HOL-Library.Word"
begin

section \<open>Python values, dictionaries and exceptions\<close>

text \<open>
  The checker of \<^verbatim>\<open>script.py\<close> keeps every per-file verdict in a Python \<^verbatim>\<open>dict\<close>
  with string keys. A dictionary is modelled as an association list in insertion order;
  the values are the Python values the source stores. File contents are byte lists,
  decoded text is a list of Unicode code points, and paths, keys and messages are
  Isabelle strings (the non-ASCII letters of the Portuguese messages are written as
  their UTF-8 bytes).
\<close>

type_synonym byte = "8 word"
type_synonym unicode = "nat list"

datatype pyval =
    PNone
  | PBool bool
  | PInt int
  | PStr string
  | PList "pyval list"
  | PDict "(string \<times> pyval) list"

type_synonym pydict = "(string \<times> pyval) list"

text \<open>\<^verbatim>\<open>d[k] = v\<close>: an existing key keeps its place, a new key goes to the end.\<close>

fun dict_set :: "string \<Rightarrow> pyval \<Rightarrow> pydict \<Rightarrow> pydict" where
  "dict_set k v [] = [(k, v)]"
| "dict_set k v ((k', v') # d) =
     (if k = k' then (k, v) # d else (k', v') # dict_set k v d)"

text \<open>\<^verbatim>\<open>d.get(k)\<close> and \<^verbatim>\<open>k in d\<close>.\<close>

definition dict_get :: "pydict \<Rightarrow> string \<Rightarrow> pyval option" where
  "dict_get d k = map_of d k"

definition dict_has :: "string \<Rightarrow> pydict \<Rightarrow> bool" where
  "dict_has k d = (map_of d k \<noteq> None)"

text \<open>
  The exception classes that the source's \<^verbatim>\<open>except\<close> clauses tell apart; every other
  class is \<open>OtherException\<close>. The string is \<^verbatim>\<open>str(e)\<close>. Messages produced by the
  Python runtime itself are represented by a short text of the same meaning.
\<close>

datatype exn_class =
    OSError | PermissionError | UnicodeDecodeError | JSONDecodeError | SyntaxError
  | ParseError | ImportError | EmptyDataError | CalledProcessError | OtherException

datatype exn = Exn exn_class string

fun exn_class_of :: "exn \<Rightarrow> exn_class" where
  "exn_class_of (Exn c m) = c"

fun exn_str :: "exn \<Rightarrow> string" where
  "exn_str (Exn c m) = m"

subsection \<open>String helpers\<close>

definition a_tilde :: string where "a_tilde = [CHR 0xC3, CHR 0xA3]"
definition a_acute :: string where "a_acute = [CHR 0xC3, CHR 0xA1]"
definition c_cedil :: string where "c_cedil = [CHR 0xC3, CHR 0xA7]"
definition i_acute :: string where "i_acute = [CHR 0xC3, CHR 0xAD]"
definition o_acute :: string where "o_acute = [CHR 0xC3, CHR 0xB3]"

text \<open>\<^verbatim>\<open>xs.startswith(p)\<close> and \<^verbatim>\<open>p in xs\<close> on byte strings and strings.\<close>

definition startswith :: "'a list \<Rightarrow> 'a list \<Rightarrow> bool" where
  "startswith xs p = (take (length p) xs = p)"

fun contains :: "'a list \<Rightarrow> 'a list \<Rightarrow> bool" where
  "contains [] p = (p = [])"
| "contains (x # xs) p = (startswith (x # xs) p \<or> contains xs p)"

text \<open>\<^verbatim>\<open>str.lower()\<close> on the ASCII letters.\<close>

definition lower_char :: "char \<Rightarrow> char" where
  "lower_char c =
     (case map_of (zip ''ABCDEFGHIJKLMNOPQRSTUVWXYZ'' ''abcdefghijklmnopqrstuvwxyz'') c of
        Some d \<Rightarrow> d
      | None \<Rightarrow> c)"

definition lower :: "string \<Rightarrow> string" where
  "lower s = map lower_char s"

text \<open>\<^verbatim>\<open>str.strip()\<close>: the ASCII white space at both ends.\<close>

definition is_space :: "char \<Rightarrow> bool" where
  "is_space c =
     (c \<in> set [CHR '' '', CHR 0x09, CHR 0x0A, CHR 0x0B, CHR 0x0C, CHR 0x0D,
                CHR 0x1C, CHR 0x1D, CHR 0x1E, CHR 0x1F])"

definition strip :: "string \<Rightarrow> string" where
  "strip s = rev (dropWhile is_space (rev (dropWhile is_space s)))"

text \<open>\<^verbatim>\<open>', '.join(xs)\<close>.\<close>

fun join_comma :: "string list \<Rightarrow> string" where
  "join_comma [] = []"
| "join_comma [x] = x"
| "join_comma (x # y # ys) = x @ '', '' @ join_comma (y # ys)"

text \<open>\<^verbatim>\<open>oct(n)\<close> and \<^verbatim>\<open>str(n)\<close> for a non-negative integer.\<close>

function oct_digits :: "nat \<Rightarrow> string" where
  "oct_digits n =
     (if n < 8 then [''01234567'' ! n]
      else oct_digits (n div 8) @ [''01234567'' ! (n mod 8)])"
  by pat_completeness auto
termination
  by (relation "measure id") auto

declare oct_digits.simps [simp del]

definition py_oct :: "nat \<Rightarrow> string" where
  "py_oct n = ''0o'' @ oct_digits n"

function dec_digits :: "nat \<Rightarrow> string" where
  "dec_digits n =
     (if n < 10 then [''0123456789'' ! n]
      else dec_digits (n div 10) @ [''0123456789'' ! (n mod 10)])"
  by pat_completeness auto
termination
  by (relation "measure id") auto

declare dec_digits.simps [simp del]

text \<open>\<^verbatim>\<open>s[-3:]\<close>.\<close>

definition last3 :: "'a list \<Rightarrow> 'a list" where
  "last3 s = drop (length s - 3) s"

subsection \<open>Paths\<close>

text \<open>
  \<^verbatim>\<open>os.path.basename\<close>, \<^verbatim>\<open>os.path.join\<close> of two components and
  \<^verbatim>\<open>Path(p).suffix\<close>: the suffix starts at the last dot of the final component,
  provided that dot is neither its first nor its last character.
\<close>

definition basename :: "string \<Rightarrow> string" where
  "basename p = rev (takeWhile (\<lambda>c. c \<noteq> CHR ''/'') (rev p))"

definition path_join :: "string \<Rightarrow> string \<Rightarrow> string" where
  "path_join a b =
     (if startswith b ''/'' then b
      else if a = [] \<or> last a = CHR ''/'' then a @ b
      else a @ ''/'' @ b)"

definition path_suffix :: "string \<Rightarrow> string" where
  "path_suffix p =
     (let name = basename p;
          after = rev (takeWhile (\<lambda>c. c \<noteq> CHR ''.'') (rev name))
      in if CHR ''.'' \<in> set name \<and> after \<noteq> [] \<and> length after + 1 < length name
         then CHR ''.'' # after
         else [])"

section \<open>The environment: file system and libraries\<close>

text \<open>
  The file system is a snapshot that does not change during a run. A path resolves to
  nothing, to a directory or to a regular file. The size reported by \<^verbatim>\<open>os.stat\<close> is
  the length of the content; \<open>may_read\<close> is the read permission of the running process,
  which decides both \<^verbatim>\<open>os.access(path, os.R_OK)\<close> and whether \<^verbatim>\<open>open\<close> succeeds;
  \<^verbatim>\<open>os.stat\<close> succeeds on every path that exists.

  Logging, printing and the writing of report files are not modelled: they change no
  verdict and no counter. The console prompt of the installer is modelled as answered.
\<close>

record node =
  is_regular :: bool
  st_mode :: nat
  st_mtime :: int
  may_read :: bool
  content :: "byte list"

text \<open>What pandas reports about one sheet, and the part of pandas the checker calls.\<close>

record dataframe =
  df_rows :: nat
  df_columns :: "pyval list"
  df_dtypes :: "(string \<times> nat) list"
  df_missing :: nat

record pandas_api =
  pd_version :: string
  ExcelFile :: "byte list \<Rightarrow> exn + string list"
  read_excel :: "byte list \<Rightarrow> string \<Rightarrow> exn + dataframe"

datatype json_top = JDict nat | JList nat | JOther string

text \<open>
  The environment of one run: the file system, the directory walker, and the results of
  the library calls whose code is not part of the repository (hashlib, datetime, csv,
  json, the Python compiler, ElementTree, zipfile, pandas, pip, the console). Importing
  pandas depends on whether the installer has run in this process.
\<close>

record env =
  fs :: "string \<Rightarrow> node option"
  os_walk :: "string \<Rightarrow> (string \<times> string list \<times> string list) list"
  os_listdir :: "string \<Rightarrow> exn + string list"
  fromtimestamp_iso :: "int \<Rightarrow> exn + string"
  hashlib_new :: "string \<Rightarrow> exn + (byte list \<Rightarrow> string)"
  csv_reader :: "unicode \<Rightarrow> nat \<Rightarrow> exn + unicode list list"
  json_loads :: "unicode \<Rightarrow> exn + json_top"
  py_compile :: "unicode \<Rightarrow> exn option"
  str_upper :: "unicode \<Rightarrow> unicode"
  xml_etree :: "(byte list \<Rightarrow> exn + string) option"
  zipfile_test :: "byte list \<Rightarrow> exn + (string option \<times> string list)"
  import_pandas :: "bool \<Rightarrow> string + pandas_api"
  pct_round2 :: "nat \<Rightarrow> nat \<Rightarrow> pyval"
  console_reply :: string
  pip_install :: "exn option"
  now_iso :: string

definition path_exists :: "env \<Rightarrow> string \<Rightarrow> bool" where
  "path_exists w p = (fs w p \<noteq> None)"

definition path_isfile :: "env \<Rightarrow> string \<Rightarrow> bool" where
  "path_isfile w p = (case fs w p of None \<Rightarrow> False | Some n \<Rightarrow> is_regular n)"

text \<open>\<^verbatim>\<open>open(path, 'rb')\<close> followed by reading: the content, or the exception raised.\<close>

definition open_rb :: "env \<Rightarrow> string \<Rightarrow> exn + byte list" where
  "open_rb w p =
     (case fs w p of
        None \<Rightarrow> Inl (Exn OSError ''[Errno 2] No such file or directory'')
      | Some n \<Rightarrow>
          if \<not> is_regular n then Inl (Exn OSError ''[Errno 21] Is a directory'')
          else if \<not> may_read n then Inl (Exn PermissionError ''[Errno 13] Permission denied'')
          else Inr (content n))"

text \<open>
  \<^verbatim>\<open>f.seek(offset, 2)\<close> on a binary file: the new position counted from the end.
  A position before the start of the file is refused by the operating system.
\<close>

definition seek_end :: "byte list \<Rightarrow> int \<Rightarrow> exn + nat" where
  "seek_end bs offset =
     (if int (length bs) + offset < 0 then Inl (Exn OSError ''[Errno 22] Invalid argument'')
      else Inr (nat (int (length bs) + offset)))"

section \<open>Decoding text\<close>

text \<open>
  The strict UTF-8 decoder of Python: shortest forms only, no surrogates, nothing above
  U+10FFFF. \<open>utf8_next\<close> decodes one code point and returns the remaining bytes.
\<close>

definition is_cont :: "byte \<Rightarrow> bool" where
  "is_cont b = (0x80 \<le> unat b \<and> unat b \<le> 0xBF)"

definition cont_bits :: "byte \<Rightarrow> nat" where
  "cont_bits b = unat b - 0x80"

definition utf8_next :: "byte list \<Rightarrow> (nat \<times> byte list) option" where
  "utf8_next bs =
     (case bs of
        [] \<Rightarrow> None
      | b # r \<Rightarrow>
          (let n = unat b in
           if n < 0x80 then Some (n, r)
           else if 0xC2 \<le> n \<and> n \<le> 0xDF then
             (case r of
                c1 # r1 \<Rightarrow>
                  if is_cont c1 then Some ((n - 0xC0) * 64 + cont_bits c1, r1) else None
              | _ \<Rightarrow> None)
           else if 0xE0 \<le> n \<and> n \<le> 0xEF then
             (case r of
                c1 # c2 # r2 \<Rightarrow>
                  if (if n = 0xE0 then 0xA0 else 0x80) \<le> unat c1
                     \<and> unat c1 \<le> (if n = 0xED then 0x9F else 0xBF) \<and> is_cont c2
                  then Some ((n - 0xE0) * 4096 + cont_bits c1 * 64 + cont_bits c2, r2)
                  else None
              | _ \<Rightarrow> None)
           else if 0xF0 \<le> n \<and> n \<le> 0xF4 then
             (case r of
                c1 # c2 # c3 # r3 \<Rightarrow>
                  if (if n = 0xF0 then 0x90 else 0x80) \<le> unat c1
                     \<and> unat c1 \<le> (if n = 0xF4 then 0x8F else 0xBF)
                     \<and> is_cont c2 \<and> is_cont c3
                  then Some ((n - 0xF0) * 262144 + cont_bits c1 * 4096
                             + cont_bits c2 * 64 + cont_bits c3, r3)
                  else None
              | _ \<Rightarrow> None)
           else None))"

function utf8_decode :: "byte list \<Rightarrow> unicode option" where
  "utf8_decode bs =
     (if bs = [] then Some []
      else case utf8_next bs of
             None \<Rightarrow> None
           | Some (cp, rest) \<Rightarrow> map_option ((#) cp) (utf8_decode rest))"
  by pat_completeness auto
termination
  by (relation "measure length")
     (auto simp: utf8_next_def Let_def split: list.splits if_splits)

declare utf8_decode.simps [simp del]

definition latin1_decode :: "byte list \<Rightarrow> unicode option" where
  "latin1_decode bs = Some (map unat bs)"

text \<open>Windows-1252: five bytes between 0x80 and 0x9F have no character.\<close>

definition cp1252_table :: "nat option list" where
  "cp1252_table =
     [Some 0x20AC, None, Some 0x201A, Some 0x0192, Some 0x201E, Some 0x2026, Some 0x2020,
      Some 0x2021, Some 0x02C6, Some 0x2030, Some 0x0160, Some 0x2039, Some 0x0152, None,
      Some 0x017D, None, None, Some 0x2018, Some 0x2019, Some 0x201C, Some 0x201D,
      Some 0x2022, Some 0x2013, Some 0x2014, Some 0x02DC, Some 0x2122, Some 0x0161,
      Some 0x203A, Some 0x0153, None, Some 0x017E, Some 0x0178]"

definition cp1252_char :: "byte \<Rightarrow> nat option" where
  "cp1252_char b =
     (let n = unat b in
      if n < 0x80 \<or> 0xA0 \<le> n then Some n else cp1252_table ! (n - 0x80))"

definition cp1252_decode :: "byte list \<Rightarrow> unicode option" where
  "cp1252_decode bs = those (map cp1252_char bs)"

text \<open>\<^verbatim>\<open>bytes.decode(encoding)\<close>; \<open>None\<close> stands for \<^verbatim>\<open>UnicodeDecodeError\<close>.\<close>

definition decode :: "string \<Rightarrow> byte list \<Rightarrow> unicode option" where
  "decode encoding bs =
     (if encoding = ''utf-8'' then utf8_decode bs
      else if encoding = ''latin1'' \<or> encoding = ''iso-8859-1'' then latin1_decode bs
      else if encoding = ''cp1252'' then cp1252_decode bs
      else None)"

text \<open>\<^verbatim>\<open>header.decode('ascii', errors='ignore')\<close>: bytes outside ASCII are dropped.\<close>

definition decode_ascii_ignore :: "byte list \<Rightarrow> string" where
  "decode_ascii_ignore bs = map (\<lambda>b. char_of (unat b)) (filter (\<lambda>b. unat b < 0x80) bs)"

text \<open>Text mode translates \<^verbatim>\<open>\r\n\<close> and \<^verbatim>\<open>\r\<close> to \<^verbatim>\<open>\n\<close> on reading.\<close>

fun universal_newlines :: "unicode \<Rightarrow> unicode" where
  "universal_newlines [] = []"
| "universal_newlines [c] = [if c = 13 then 10 else c]"
| "universal_newlines (c # d # cs) =
     (if c = 13 \<and> d = 10 then 10 # universal_newlines cs
      else if c = 13 then 10 # universal_newlines (d # cs)
      else c # universal_newlines (d # cs))"

text \<open>
  \<^verbatim>\<open>open(path, 'r', encoding=...)\<close> and reading all of it. The decoder is run on the
  whole content: a byte sequence that is invalid anywhere raises
  \<^verbatim>\<open>UnicodeDecodeError\<close> from the read.
\<close>

definition read_text :: "env \<Rightarrow> string \<Rightarrow> string \<Rightarrow> exn + unicode" where
  "read_text w p encoding =
     (case open_rb w p of
        Inl e \<Rightarrow> Inl e
      | Inr bs \<Rightarrow>
          (case decode encoding bs of
             None \<Rightarrow> Inl (Exn UnicodeDecodeError (encoding @ '' codec can not decode bytes''))
           | Some t \<Rightarrow> Inr (universal_newlines t)))"

text \<open>\<^verbatim>\<open>f.readlines()\<close>: every line keeps its line feed.\<close>

fun readlines_aux :: "unicode \<Rightarrow> unicode \<Rightarrow> unicode list" where
  "readlines_aux [] cur = (if cur = [] then [] else [cur])"
| "readlines_aux (c # cs) cur =
     (if c = 10 then (cur @ [c]) # readlines_aux cs [] else readlines_aux cs (cur @ [c]))"

definition readlines :: "unicode \<Rightarrow> unicode list" where
  "readlines t = readlines_aux t []"

text \<open>\<^verbatim>\<open>str.splitlines()\<close>.\<close>

definition is_linebreak :: "nat \<Rightarrow> bool" where
  "is_linebreak c = (c \<in> set [10, 11, 12, 13, 28, 29, 30, 133, 8232, 8233])"

fun splitlines_aux :: "unicode \<Rightarrow> unicode \<Rightarrow> unicode list" where
  "splitlines_aux [] cur = (if cur = [] then [] else [cur])"
| "splitlines_aux [c] cur = (if is_linebreak c then [cur] else [cur @ [c]])"
| "splitlines_aux (c # d # cs) cur =
     (if c = 13 \<and> d = 10 then cur # splitlines_aux cs []
      else if is_linebreak c then cur # splitlines_aux (d # cs) []
      else splitlines_aux (d # cs) (cur @ [c]))"

definition splitlines :: "unicode \<Rightarrow> unicode list" where
  "splitlines t = splitlines_aux t []"

text \<open>\<^verbatim>\<open>s.count(p)\<close>: occurrences that do not overlap, from the left.\<close>

function count_sub :: "'a list \<Rightarrow> 'a list \<Rightarrow> nat" where
  "count_sub xs p =
     (if p = [] then length xs + 1
      else if xs = [] then 0
      else if startswith xs p then 1 + count_sub (drop (length p) xs) p
      else count_sub (tl xs) p)"
  by pat_completeness auto
termination
  by (relation "measure (\<lambda>(xs, p). length xs)") auto

declare count_sub.simps [simp del]

definition ustr :: "string \<Rightarrow> unicode" where
  "ustr s = map of_char s"

section \<open>Hasher and Accessibility Prober\<close>

text \<open>
  \<^verbatim>\<open>calculate_file_hash\<close>: the hash object collects the chunks of 4096 bytes it is fed and
  \<^verbatim>\<open>hexdigest\<close> applies the algorithm to what was collected. Every exception gives
  \<open>None\<close> (the source logs it and returns \<^verbatim>\<open>None\<close>).
\<close>

function hash_chunks :: "byte list \<Rightarrow> byte list \<Rightarrow> byte list" where
  "hash_chunks rest fed =
     (let chunk = take 4096 rest
      in if chunk = [] then fed else hash_chunks (drop 4096 rest) (fed @ chunk))"
  by pat_completeness auto
termination
  by (relation "measure (\<lambda>(rest, fed). length rest)") auto

declare hash_chunks.simps [simp del]

definition calculate_file_hash :: "env \<Rightarrow> string \<Rightarrow> string \<Rightarrow> string option" where
  "calculate_file_hash w file_path algorithm =
     (case hashlib_new w algorithm of
        Inl e \<Rightarrow> None
      | Inr hexdigest \<Rightarrow>
          (case open_rb w file_path of
             Inl e \<Rightarrow> None
           | Inr bs \<Rightarrow> Some (hexdigest (hash_chunks bs []))))"

definition opt_str :: "string option \<Rightarrow> pyval" where
  "opt_str x = (case x of None \<Rightarrow> PNone | Some s \<Rightarrow> PStr s)"

text \<open>
  \<^verbatim>\<open>_check_basic_accessibility\<close>. An exception after the size has been stored (the
  conversion of the modification time) leaves \<^verbatim>\<open>is_accessible\<close> false.
\<close>

definition check_basic_accessibility :: "env \<Rightarrow> string \<Rightarrow> pydict" where
  "check_basic_accessibility w file_path =
     (let result =
            [(''file_path'', PStr file_path),
             (''file_name'', PStr (basename file_path)),
             (''file_size'', PInt 0),
             (''is_accessible'', PBool False),
             (''is_readable'', PBool False),
             (''permissions'', PStr []),
             (''last_modified'', PStr []),
             (''error'', PNone)]
      in case fs w file_path of
           None \<Rightarrow>
             dict_set ''error'' (PStr (''Arquivo n'' @ a_tilde @ ''o encontrado'')) result
         | Some n \<Rightarrow>
             (let result = dict_set ''file_size'' (PInt (int (length (content n)))) result
              in case fromtimestamp_iso w (st_mtime n) of
                   Inl e \<Rightarrow> dict_set ''error'' (PStr (exn_str e)) result
                 | Inr iso_time \<Rightarrow>
                     (let result = dict_set ''last_modified'' (PStr iso_time) result;
                          result = dict_set ''permissions''
                                     (PStr (last3 (py_oct (st_mode n)))) result;
                          result = dict_set ''is_accessible'' (PBool True) result
                      in if may_read n
                         then dict_set ''is_readable'' (PBool True) result
                         else result)))"

section \<open>Format Validators\<close>

text \<open>
  One function per handler of \<^verbatim>\<open>file_handlers\<close>. Each starts from the dictionary the
  source initialises and returns it with the fields the source sets on the path taken;
  a caught exception becomes the \<^verbatim>\<open>error\<close> field exactly where the source's
  \<^verbatim>\<open>except\<close> clause stores it.
\<close>

subsection \<open>CSV\<close>

definition pick_separator :: "unicode \<Rightarrow> nat \<times> string" where
  "pick_separator sample =
     foldl (\<lambda>separator sep.
              if count_list sample (fst sep) > count_list sample (fst separator)
              then sep else separator)
           (44, '','')
           [(44, '',''), (59, '';''), (9, [CHR 0x09]), (124, ''|'')]"

fun check_csv_loop :: "env \<Rightarrow> string \<Rightarrow> string list \<Rightarrow> pydict \<Rightarrow> pydict" where
  "check_csv_loop w file_path [] integrity_check = integrity_check"
| "check_csv_loop w file_path (encoding # encodings) integrity_check =
     (case read_text w file_path encoding of
        Inl e \<Rightarrow>
          if exn_class_of e = UnicodeDecodeError
          then check_csv_loop w file_path encodings integrity_check
          else dict_set ''error'' (PStr (exn_str e)) integrity_check
      | Inr f \<Rightarrow>
          (let sample = take 1024 f;
               separator = pick_separator sample
           in case csv_reader w f (fst separator) of
                Inl e \<Rightarrow>
                  if exn_class_of e = UnicodeDecodeError
                  then check_csv_loop w file_path encodings integrity_check
                  else dict_set ''error'' (PStr (exn_str e)) integrity_check
              | Inr rows \<Rightarrow>
                  dict_set ''separator'' (PStr (snd separator))
                    (dict_set ''encoding'' (PStr encoding)
                      (dict_set ''columns_count''
                         (PInt (case rows of [] \<Rightarrow> 0 | r # rs \<Rightarrow> int (length r)))
                        (dict_set ''rows_count'' (PInt (int (length rows)))
                          (dict_set ''format_valid'' (PBool True) integrity_check))))))"

definition check_csv_file :: "env \<Rightarrow> string \<Rightarrow> pydict" where
  "check_csv_file w file_path =
     check_csv_loop w file_path [''utf-8'', ''latin1'', ''cp1252'', ''iso-8859-1'']
       [(''format_valid'', PBool False), (''rows_count'', PInt 0),
        (''columns_count'', PInt 0), (''encoding'', PStr ''unknown'')]"

subsection \<open>JSON\<close>

definition json_type_name :: "json_top \<Rightarrow> string" where
  "json_type_name d = (case d of JDict n \<Rightarrow> ''dict'' | JList n \<Rightarrow> ''list'' | JOther t \<Rightarrow> t)"

definition check_json_file :: "env \<Rightarrow> string \<Rightarrow> pydict" where
  "check_json_file w file_path =
     (let integrity_check = [(''format_valid'', PBool False), (''json_valid'', PBool False)]
      in case read_text w file_path ''utf-8'' of
           Inl e \<Rightarrow> dict_set ''error'' (PStr (exn_str e)) integrity_check
         | Inr f \<Rightarrow>
             (case json_loads w f of
                Inl e \<Rightarrow>
                  if exn_class_of e = JSONDecodeError
                  then dict_set ''error''
                         (PStr (''JSON inv'' @ a_acute @ ''lido: '' @ exn_str e)) integrity_check
                  else dict_set ''error'' (PStr (exn_str e)) integrity_check
              | Inr d \<Rightarrow>
                  (let integrity_check =
                         dict_set ''data_type'' (PStr (json_type_name d))
                           (dict_set ''json_valid'' (PBool True)
                             (dict_set ''format_valid'' (PBool True) integrity_check))
                   in case d of
                        JDict n \<Rightarrow> dict_set ''keys_count'' (PInt (int n)) integrity_check
                      | JList n \<Rightarrow> dict_set ''items_count'' (PInt (int n)) integrity_check
                      | JOther t \<Rightarrow> integrity_check)))"

subsection \<open>Excel\<close>

definition xlsx_magic :: "byte list" where
  "xlsx_magic = [0x50, 0x4B, 0x03, 0x04]"

definition xls_magic :: "byte list" where
  "xls_magic = [0xD0, 0xCF, 0x11, 0xE0]"

text \<open>The basic tier: the first eight bytes against the signature of the extension.\<close>

definition excel_basic :: "string \<Rightarrow> byte list \<Rightarrow> pydict \<Rightarrow> pydict" where
  "excel_basic file_path bs integrity_check =
     (let file_ext = lower (path_suffix file_path);
          header = take 8 bs
      in if file_ext = ''.xlsx'' then
           (if startswith header xlsx_magic
            then dict_set ''file_type'' (PStr ''xlsx'')
                   (dict_set ''format_valid'' (PBool True) integrity_check)
            else integrity_check)
         else if file_ext = ''.xls'' then
           (if startswith header xls_magic
            then dict_set ''file_type'' (PStr ''xls'')
                   (dict_set ''format_valid'' (PBool True) integrity_check)
            else integrity_check)
         else integrity_check)"

definition missing_modules_of :: "string \<Rightarrow> string list" where
  "missing_modules_of msg =
     (if contains msg ''pandas'' then [''pandas''] else [])
     @ (if contains msg ''openpyxl'' then [''openpyxl''] else [])"

text \<open>The \<^verbatim>\<open>except ImportError\<close> branch: a warning and a suggestion, no error.\<close>

definition excel_import_error :: "string \<Rightarrow> pydict \<Rightarrow> pydict" where
  "excel_import_error msg integrity_check =
     (let missing_modules = missing_modules_of msg;
          integrity_check = dict_set ''verification_level'' (PStr ''basic'') integrity_check;
          integrity_check =
            dict_set ''warning''
              (PStr (''Verifica'' @ c_cedil @ a_tilde @ ''o limitada - m'' @ o_acute
                     @ ''dulos ausentes: '' @ join_comma missing_modules)) integrity_check;
          integrity_check = dict_set ''enhancement_available'' (PBool True) integrity_check;
          integrity_check =
            dict_set ''missing_modules'' (PList (map PStr missing_modules)) integrity_check
      in if dict_get integrity_check ''format_valid'' = Some (PBool True)
         then dict_set ''suggestion''
                (PStr (''Instale pandas e openpyxl para verifica'' @ c_cedil @ a_tilde
                       @ ''o completa de Excel'')) integrity_check
         else integrity_check)"

definition sheet_info_of :: "env \<Rightarrow> dataframe \<Rightarrow> pydict" where
  "sheet_info_of w df =
     (let n_rows = df_rows df;
          n_cols = length (df_columns df);
          cells = n_rows * n_cols
      in [(''rows'', PInt (int n_rows)),
          (''columns'', PInt (int n_cols)),
          (''cells'', PInt (int cells)),
          (''has_data'', PBool (n_rows \<noteq> 0 \<and> n_cols \<noteq> 0)),
          (''column_names'',
             if n_cols \<le> 20 then PList (df_columns df)
             else PStr (dec_digits n_cols @ '' colunas'')),
          (''data_types'',
             PDict (foldl (\<lambda>d (t, c). dict_set t (PInt (int c)) d) [] (df_dtypes df))),
          (''missing_cells'', PInt (int (df_missing df))),
          (''missing_percentage'',
             if cells > 0 then pct_round2 w (df_missing df) cells else PInt 0)])"

text \<open>The loop over the first five sheets: a failing sheet is recorded and skipped.\<close>

fun analyse_sheets ::
  "env \<Rightarrow> pandas_api \<Rightarrow> byte list \<Rightarrow> string list \<Rightarrow> pydict \<Rightarrow> int \<Rightarrow> pydict \<times> int" where
  "analyse_sheets w pd bs [] sheets_info total_cells = (sheets_info, total_cells)"
| "analyse_sheets w pd bs (sheet_name # sheet_names) sheets_info total_cells =
     (case read_excel pd bs sheet_name of
        Inl e \<Rightarrow>
          analyse_sheets w pd bs sheet_names
            (dict_set sheet_name (PDict [(''error'', PStr (exn_str e))]) sheets_info)
            total_cells
      | Inr df \<Rightarrow>
          analyse_sheets w pd bs sheet_names
            (dict_set sheet_name (PDict (sheet_info_of w df)) sheets_info)
            (total_cells + int (df_rows df * length (df_columns df))))"

definition excel_parser_error :: "exn \<Rightarrow> pydict \<Rightarrow> pydict" where
  "excel_parser_error e integrity_check =
     (if exn_class_of e = EmptyDataError
      then dict_set ''error'' (PStr ''Arquivo Excel vazio'') integrity_check
      else
        (let error_msg = lower (exn_str e)
         in if contains error_msg ''not a zip file'' \<or> contains error_msg ''bad zipfile''
            then dict_set ''error''
                   (PStr (''Arquivo Excel corrompido ou formato inv'' @ a_acute @ ''lido''))
                   integrity_check
            else if contains error_msg ''permission''
            then dict_set ''error''
                   (PStr (''Sem permiss'' @ a_tilde @ ''o para acessar arquivo Excel''))
                   integrity_check
            else dict_set ''error''
                   (PStr (''Erro na an'' @ a_acute @ ''lise Excel: '' @ exn_str e))
                   integrity_check))"

definition excel_advanced :: "env \<Rightarrow> pandas_api \<Rightarrow> byte list \<Rightarrow> pydict \<Rightarrow> pydict" where
  "excel_advanced w pd bs integrity_check =
     (let integrity_check = dict_set ''verification_level'' (PStr ''advanced'') integrity_check;
          integrity_check = dict_set ''pandas_version'' (PStr (pd_version pd)) integrity_check
      in case ExcelFile pd bs of
           Inl e \<Rightarrow> excel_parser_error e integrity_check
         | Inr sheet_names \<Rightarrow>
             (let integrity_check =
                    dict_set ''sheets_count'' (PInt (int (length sheet_names))) integrity_check;
                  integrity_check =
                    dict_set ''sheet_names'' (PList (map PStr sheet_names)) integrity_check;
                  analysed = analyse_sheets w pd bs (take 5 sheet_names) [] 0;
                  integrity_check = dict_set ''sheets_info'' (PDict (fst analysed)) integrity_check;
                  integrity_check = dict_set ''total_cells'' (PInt (snd analysed)) integrity_check
              in if length sheet_names > 0
                 then dict_set ''structure_valid'' (PBool True) integrity_check
                 else dict_set ''warning''
                        (PStr (''Arquivo Excel sem planilhas v'' @ a_acute @ ''lidas''))
                        (dict_set ''structure_valid'' (PBool False) integrity_check)))"

text \<open>
  \<^verbatim>\<open>_check_excel_file\<close>. A failure of the basic tier returns at once; otherwise the
  imports decide between the advanced tier and the \<^verbatim>\<open>ImportError\<close> branch.
  \<open>installed\<close> tells whether the installer has run in this process.
\<close>

definition check_excel_file :: "env \<Rightarrow> bool \<Rightarrow> string \<Rightarrow> pydict" where
  "check_excel_file w installed file_path =
     (let integrity_check =
            [(''format_valid'', PBool False), (''sheets_count'', PInt 0),
             (''verification_level'', PStr ''basic'')]
      in case open_rb w file_path of
           Inl e \<Rightarrow>
             dict_set ''error''
               (PStr (''Erro na verifica'' @ c_cedil @ a_tilde @ ''o b'' @ a_acute @ ''sica: ''
                      @ exn_str e)) integrity_check
         | Inr bs \<Rightarrow>
             (let integrity_check = excel_basic file_path bs integrity_check
              in case import_pandas w installed of
                   Inl msg \<Rightarrow> excel_import_error msg integrity_check
                 | Inr pd \<Rightarrow> excel_advanced w pd bs integrity_check))"

subsection \<open>PDF\<close>

definition pdf_magic :: "byte list" where
  "pdf_magic = [0x25, 0x50, 0x44, 0x46, 0x2D]"

definition eof_marker :: "byte list" where
  "eof_marker = [0x25, 0x25, 0x45, 0x4F, 0x46]"

text \<open>
  \<^verbatim>\<open>_check_pdf_file\<close>: the header test, then \<^verbatim>\<open>f.seek(-1024, 2)\<close> and the search
  for the marker in what follows that position, all inside one \<^verbatim>\<open>try\<close>.
\<close>

definition check_pdf_file :: "env \<Rightarrow> string \<Rightarrow> pydict" where
  "check_pdf_file w file_path =
     (let integrity_check = [(''format_valid'', PBool False), (''pages_count'', PInt 0)]
      in case open_rb w file_path of
           Inl e \<Rightarrow> dict_set ''error'' (PStr (exn_str e)) integrity_check
         | Inr bs \<Rightarrow>
             (let header = take 8 bs;
                  integrity_check =
                    (if startswith header pdf_magic
                     then dict_set ''pdf_version'' (PStr (decode_ascii_ignore header))
                            (dict_set ''format_valid'' (PBool True) integrity_check)
                     else integrity_check)
              in case seek_end bs (- 1024) of
                   Inl e \<Rightarrow> dict_set ''error'' (PStr (exn_str e)) integrity_check
                 | Inr pos \<Rightarrow>
                     (let tail = drop pos bs
                      in if contains tail eof_marker
                         then dict_set ''has_eof'' (PBool True) integrity_check
                         else integrity_check)))"

subsection \<open>Plain text\<close>

fun check_text_loop :: "env \<Rightarrow> string \<Rightarrow> string list \<Rightarrow> pydict \<Rightarrow> pydict" where
  "check_text_loop w file_path [] integrity_check = integrity_check"
| "check_text_loop w file_path (encoding # encodings) integrity_check =
     (case read_text w file_path encoding of
        Inl e \<Rightarrow>
          if exn_class_of e = UnicodeDecodeError
          then check_text_loop w file_path encodings integrity_check
          else dict_set ''error'' (PStr (exn_str e)) integrity_check
      | Inr f \<Rightarrow>
          (let lines = readlines f
           in dict_set ''char_count'' (PInt (int (sum_list (map length lines))))
                (dict_set ''encoding'' (PStr encoding)
                  (dict_set ''lines_count'' (PInt (int (length lines)))
                    (dict_set ''format_valid'' (PBool True) integrity_check)))))"

definition check_text_file :: "env \<Rightarrow> string \<Rightarrow> pydict" where
  "check_text_file w file_path =
     check_text_loop w file_path [''utf-8'', ''latin1'', ''cp1252'', ''iso-8859-1'']
       [(''format_valid'', PBool False), (''lines_count'', PInt 0),
        (''encoding'', PStr ''unknown'')]"

subsection \<open>Python source\<close>

text \<open>
  The two handlers of \<^verbatim>\<open>_check_python_file\<close>: a \<^verbatim>\<open>SyntaxError\<close> is recorded beside
  \<^verbatim>\<open>format_valid = True\<close>, every other exception becomes the \<^verbatim>\<open>error\<close> field.
\<close>

definition python_except :: "exn \<Rightarrow> pydict \<Rightarrow> pydict" where
  "python_except e integrity_check =
     (if exn_class_of e = SyntaxError
      then dict_set ''syntax_error'' (PStr (exn_str e))
             (dict_set ''format_valid'' (PBool True) integrity_check)
      else dict_set ''error'' (PStr (exn_str e)) integrity_check)"

definition check_python_file :: "env \<Rightarrow> string \<Rightarrow> pydict" where
  "check_python_file w file_path =
     (let integrity_check = [(''format_valid'', PBool False), (''syntax_valid'', PBool False)]
      in case read_text w file_path ''utf-8'' of
           Inl e \<Rightarrow> python_except e integrity_check
         | Inr source \<Rightarrow>
             (case py_compile w source of
                Some e \<Rightarrow> python_except e integrity_check
              | None \<Rightarrow>
                  dict_set ''lines_count'' (PInt (int (length (splitlines source))))
                    (dict_set ''syntax_valid'' (PBool True)
                      (dict_set ''format_valid'' (PBool True) integrity_check))))"

subsection \<open>SQL\<close>

definition check_sql_file :: "env \<Rightarrow> string \<Rightarrow> pydict" where
  "check_sql_file w file_path =
     (let integrity_check = [(''format_valid'', PBool False), (''statements_count'', PInt 0)]
      in case read_text w file_path ''utf-8'' of
           Inl e \<Rightarrow> dict_set ''error'' (PStr (exn_str e)) integrity_check
         | Inr source \<Rightarrow>
             (let integrity_check = dict_set ''format_valid'' (PBool True) integrity_check;
                  integrity_check =
                    dict_set ''lines_count'' (PInt (int (length (splitlines source))))
                      integrity_check;
                  upper = str_upper w source;
                  statements =
                    count_sub upper (ustr ''SELECT'') + count_sub upper (ustr ''INSERT'')
                    + count_sub upper (ustr ''UPDATE'') + count_sub upper (ustr ''DELETE'')
                    + count_sub upper (ustr ''CREATE'') + count_sub upper (ustr ''DROP'')
              in dict_set ''statements_count'' (PInt (int statements)) integrity_check))"

subsection \<open>XML\<close>

text \<open>
  \<^verbatim>\<open>_check_xml_file\<close>: \<^verbatim>\<open>ET.parse\<close> opens the file itself. A \<^verbatim>\<open>ParseError\<close> is
  stored under \<^verbatim>\<open>xml_error\<close> with \<^verbatim>\<open>format_valid = True\<close>; a failed import and
  every other exception store \<^verbatim>\<open>error\<close>.
\<close>

definition check_xml_file :: "env \<Rightarrow> string \<Rightarrow> pydict" where
  "check_xml_file w file_path =
     (let integrity_check = [(''format_valid'', PBool False), (''well_formed'', PBool False)]
      in case xml_etree w of
           None \<Rightarrow>
             dict_set ''error''
               (PStr (''xml.etree n'' @ a_tilde @ ''o dispon'' @ i_acute @ ''vel'')) integrity_check
         | Some parse \<Rightarrow>
             (case open_rb w file_path of
                Inl e \<Rightarrow> dict_set ''error'' (PStr (exn_str e)) integrity_check
              | Inr bs \<Rightarrow>
                  (case parse bs of
                     Inr root_tag \<Rightarrow>
                       dict_set ''root_tag'' (PStr root_tag)
                         (dict_set ''well_formed'' (PBool True)
                           (dict_set ''format_valid'' (PBool True) integrity_check))
                   | Inl e \<Rightarrow>
                       if exn_class_of e = ParseError
                       then dict_set ''xml_error'' (PStr (exn_str e))
                              (dict_set ''format_valid'' (PBool True) integrity_check)
                       else dict_set ''error'' (PStr (exn_str e)) integrity_check)))"

subsection \<open>ZIP and RAR\<close>

definition check_zip_file :: "env \<Rightarrow> string \<Rightarrow> pydict" where
  "check_zip_file w file_path =
     (let integrity_check = [(''format_valid'', PBool False), (''files_count'', PInt 0)]
      in case open_rb w file_path of
           Inl e \<Rightarrow> dict_set ''error'' (PStr (exn_str e)) integrity_check
         | Inr bs \<Rightarrow>
             (case zipfile_test w bs of
                Inl e \<Rightarrow> dict_set ''error'' (PStr (exn_str e)) integrity_check
              | Inr (bad_file, namelist) \<Rightarrow>
                  (let integrity_check = dict_set ''format_valid'' (PBool True) integrity_check;
                       integrity_check =
                         dict_set ''is_corrupted'' (PBool (bad_file \<noteq> None)) integrity_check;
                       integrity_check =
                         dict_set ''files_count'' (PInt (int (length namelist))) integrity_check
                   in case bad_file of
                        None \<Rightarrow> integrity_check
                      | Some name \<Rightarrow>
                          if name = [] then integrity_check
                          else dict_set ''corrupted_file'' (PStr name) integrity_check)))"

definition rar_magic :: "byte list" where
  "rar_magic = [0x52, 0x61, 0x72, 0x21, 0x1A, 0x07, 0x00]"

definition check_rar_file :: "env \<Rightarrow> string \<Rightarrow> pydict" where
  "check_rar_file w file_path =
     (let integrity_check = [(''format_valid'', PBool False)]
      in case open_rb w file_path of
           Inl e \<Rightarrow> dict_set ''error'' (PStr (exn_str e)) integrity_check
         | Inr bs \<Rightarrow>
             (let header = take 7 bs
              in if startswith header rar_magic
                 then dict_set ''rar_signature'' (PBool True)
                        (dict_set ''format_valid'' (PBool True) integrity_check)
                 else integrity_check))"

section \<open>The checker and its state\<close>

text \<open>
  The summary has a fixed set of keys and is modelled as a record. The state of a
  \<^verbatim>\<open>FileIntegrityChecker\<close> is its attributes; \<open>installer_ran\<close> is the one piece of
  process state the checker changes outside itself (a completed \<^verbatim>\<open>pip install\<close>).
  \<^verbatim>\<open>CustomFileChecker\<close> extends the checker by two attributes.
\<close>

record summary =
  total_files :: int
  intact_files :: int
  corrupted_files :: int
  inaccessible_files :: int
  excel_files :: int
  enhanced_excel_analysis :: bool
  scan_date :: string

record checker =
  directories :: "string list"
  output_format :: string
  auto_install_excel :: bool
  results :: "pydict list"
  excel_enhancement_checked :: bool
  summary :: summary
  installer_ran :: bool

record custom_checker = checker +
  recursive :: bool
  file_types :: "string list"

definition init_summary :: "env \<Rightarrow> summary" where
  "init_summary w =
     \<lparr>total_files = 0, intact_files = 0, corrupted_files = 0, inaccessible_files = 0,
      excel_files = 0, enhanced_excel_analysis = False, scan_date = now_iso w\<rparr>"

definition init_checker :: "env \<Rightarrow> string list \<Rightarrow> string \<Rightarrow> bool \<Rightarrow> checker" where
  "init_checker w dirs fmt auto_install =
     \<lparr>directories = dirs, output_format = fmt, auto_install_excel = auto_install,
      results = [], excel_enhancement_checked = False, summary = init_summary w,
      installer_ran = False\<rparr>"

definition init_custom_checker ::
  "env \<Rightarrow> string list \<Rightarrow> bool \<Rightarrow> string list \<Rightarrow> bool \<Rightarrow> custom_checker" where
  "init_custom_checker w dirs rec types auto_install =
     \<lparr>directories = dirs, output_format = ''txt'', auto_install_excel = auto_install,
      results = [], excel_enhancement_checked = False, summary = init_summary w,
      installer_ran = False, recursive = rec, file_types = types\<rparr>"

subsection \<open>Enhancement Negotiator\<close>

text \<open>
  \<^verbatim>\<open>check_pandas_available\<close> returns the version, or the missing modules.
  \<^verbatim>\<open>install_excel_dependencies\<close> returns its pair and whether the installer has run.
  The operator's answer to the prompt is an input of the model.
\<close>

definition check_pandas_available :: "env \<Rightarrow> bool \<Rightarrow> string list + string" where
  "check_pandas_available w installed =
     (case import_pandas w installed of
        Inr pd \<Rightarrow> Inr (pd_version pd)
      | Inl msg \<Rightarrow> Inl (missing_modules_of msg))"

definition install_excel_dependencies ::
  "env \<Rightarrow> bool \<Rightarrow> bool \<Rightarrow> (bool \<times> string) \<times> bool" where
  "install_excel_dependencies w installed auto_install =
     (case check_pandas_available w installed of
        Inr info \<Rightarrow>
          ((True, ''Pandas j'' @ a_acute @ '' instalado (vers'' @ a_tilde @ ''o '' @ info @ '')''),
           installed)
      | Inl info \<Rightarrow>
          if \<not> auto_install
             \<and> lower (strip (console_reply w)) \<notin> set [''s'', ''sim'', ''y'', ''yes'']
          then ((False, ''Instala'' @ c_cedil @ a_tilde @ ''o cancelada pelo usu'' @ a_acute
                        @ ''rio''), installed)
          else
            (case pip_install w of
               Some e \<Rightarrow>
                 if exn_class_of e = CalledProcessError
                 then ((False, ''Erro na instala'' @ c_cedil @ a_tilde @ ''o: '' @ exn_str e),
                       installed)
                 else ((False, ''Erro inesperado: '' @ exn_str e), installed)
             | None \<Rightarrow>
                 (case check_pandas_available w True of
                    Inr version \<Rightarrow>
                      ((True, ''Instala'' @ c_cedil @ a_tilde @ ''o conclu'' @ i_acute @ ''da''),
                       True)
                  | Inl missing \<Rightarrow>
                      ((False, ''Erro na verifica'' @ c_cedil @ a_tilde @ ''o p'' @ o_acute
                               @ ''s-instala'' @ c_cedil @ a_tilde @ ''o''), True))))"

definition set_enhanced :: "('a checker_scheme) \<Rightarrow> 'a checker_scheme" where
  "set_enhanced st = st\<lparr>summary := (summary st)\<lparr>enhanced_excel_analysis := True\<rparr>\<rparr>"

definition check_excel_enhancement :: "env \<Rightarrow> 'a checker_scheme \<Rightarrow> 'a checker_scheme" where
  "check_excel_enhancement w st =
     (if excel_enhancement_checked st then st
      else
        (let st = st\<lparr>excel_enhancement_checked := True\<rparr>
         in case check_pandas_available w (installer_ran st) of
              Inr info \<Rightarrow> set_enhanced st
            | Inl info \<Rightarrow>
                (let outcome = install_excel_dependencies w (installer_ran st)
                                 (auto_install_excel st);
                     st = st\<lparr>installer_ran := snd outcome\<rparr>
                 in if fst (fst outcome) then set_enhanced st else st)))"

subsection \<open>Validator Registry\<close>

definition file_handlers :: "env \<Rightarrow> bool \<Rightarrow> string \<Rightarrow> (string \<Rightarrow> pydict) option" where
  "file_handlers w installed =
     map_of
       [(''.csv'', check_csv_file w),
        (''.json'', check_json_file w),
        (''.xlsx'', check_excel_file w installed),
        (''.xls'', check_excel_file w installed),
        (''.pdf'', check_pdf_file w),
        (''.txt'', check_text_file w),
        (''.py'', check_python_file w),
        (''.sql'', check_sql_file w),
        (''.xml'', check_xml_file w),
        (''.zip'', check_zip_file w),
        (''.rar'', check_rar_file w)]"

definition unknown_format :: pydict where
  "unknown_format =
     [(''format'', PStr ''unknown''),
      (''message'', PStr (''Tipo de arquivo n'' @ a_tilde @ ''o reconhecido''))]"

subsection \<open>Classification Decision\<close>

text \<open>\<^verbatim>\<open>'error' in result['specific_checks']\<close>.\<close>

definition error_in_specific :: "pydict \<Rightarrow> bool" where
  "error_in_specific result =
     (case dict_get result ''specific_checks'' of
        Some (PDict d) \<Rightarrow> dict_has ''error'' d
      | _ \<Rightarrow> False)"

text \<open>The block of \<^verbatim>\<open>check_file_integrity\<close> that sets \<^verbatim>\<open>integrity_status\<close>.\<close>

definition determine_status :: "pydict \<Rightarrow> pydict" where
  "determine_status result =
     (if dict_get result ''is_readable'' = Some (PBool True) then
        (if dict_get result ''file_size'' = Some (PInt 0) then
           dict_set ''warning'' (PStr ''Arquivo vazio'')
             (dict_set ''integrity_status'' (PStr ''UNKNOWN'') result)
         else if dict_has ''specific_checks'' result \<and> \<not> error_in_specific result then
           dict_set ''integrity_status'' (PStr ''INTACT'') result
         else if dict_has ''specific_checks'' result \<and> error_in_specific result then
           dict_set ''integrity_status'' (PStr ''CORRUPTED'') result
         else dict_set ''integrity_status'' (PStr ''INTACT'') result)
      else dict_set ''integrity_status'' (PStr ''CORRUPTED'') result)"

text \<open>
  \<^verbatim>\<open>check_file_integrity\<close>: the verdict for one path and the checker state after it
  (an Excel file runs the negotiator once and is counted in \<^verbatim>\<open>excel_files\<close>).
\<close>

definition count_excel :: "'a checker_scheme \<Rightarrow> 'a checker_scheme" where
  "count_excel st = st\<lparr>summary := (summary st)\<lparr>excel_files := excel_files (summary st) + 1\<rparr>\<rparr>"

definition check_file_integrity ::
  "env \<Rightarrow> 'a checker_scheme \<Rightarrow> string \<Rightarrow> pydict \<times> 'a checker_scheme" where
  "check_file_integrity w st file_path =
     (let result = check_basic_accessibility w file_path
      in if dict_get result ''is_accessible'' \<noteq> Some (PBool True)
         then (dict_set ''integrity_status'' (PStr ''INACCESSIBLE'') result, st)
         else
           (let result =
                  dict_set ''md5_hash'' (opt_str (calculate_file_hash w file_path ''md5'')) result;
                result =
                  dict_set ''sha256_hash''
                    (opt_str (calculate_file_hash w file_path ''sha256'')) result;
                file_ext = lower (path_suffix file_path);
                st = (if file_ext \<in> set [''.xlsx'', ''.xls'']
                      then count_excel (check_excel_enhancement w st)
                      else st);
                result =
                  dict_set ''specific_checks''
                    (PDict (case file_handlers w (installer_ran st) file_ext of
                              Some handler \<Rightarrow> handler file_path
                            | None \<Rightarrow> unknown_format)) result
            in (determine_status result, st)))"

section \<open>Aggregator and drivers\<close>

text \<open>
  The statements after the call of \<^verbatim>\<open>check_file_integrity\<close> in both scan loops: the
  verdict is appended, \<^verbatim>\<open>total_files\<close> is incremented, and one of three counters is
  incremented according to the status. Both loops wrap these statements in a
  \<^verbatim>\<open>try\<close> whose handler skips the file; \<open>check_file_integrity\<close> below turns every
  exception of the modelled environment into a field of the verdict and always returns,
  so the handler has no branch here.
\<close>

definition status_of :: "pydict \<Rightarrow> pyval option" where
  "status_of result = dict_get result ''integrity_status''"

definition count_status :: "summary \<Rightarrow> pydict \<Rightarrow> summary" where
  "count_status sm result =
     (let sm = sm\<lparr>total_files := total_files sm + 1\<rparr>
      in if status_of result = Some (PStr ''INTACT'')
         then sm\<lparr>intact_files := intact_files sm + 1\<rparr>
         else if status_of result = Some (PStr ''CORRUPTED'')
         then sm\<lparr>corrupted_files := corrupted_files sm + 1\<rparr>
         else if status_of result = Some (PStr ''INACCESSIBLE'')
         then sm\<lparr>inaccessible_files := inaccessible_files sm + 1\<rparr>
         else sm)"

definition process_file :: "env \<Rightarrow> 'a checker_scheme \<Rightarrow> string \<Rightarrow> 'a checker_scheme" where
  "process_file w st file_path =
     (let checked = check_file_integrity w st file_path;
          result = fst checked;
          st = snd checked
      in st\<lparr>results := results st @ [result], summary := count_status (summary st) result\<rparr>)"

text \<open>\<^verbatim>\<open>FileIntegrityChecker.scan_directories\<close>: directories, walk entries, files.\<close>

definition scan_walk_entry ::
  "env \<Rightarrow> 'a checker_scheme \<Rightarrow> string \<times> string list \<times> string list \<Rightarrow> 'a checker_scheme" where
  "scan_walk_entry w st entry =
     (case entry of (root, dirs, files) \<Rightarrow>
        foldl (\<lambda>st file. process_file w st (path_join root file)) st files)"

definition scan_directory :: "env \<Rightarrow> 'a checker_scheme \<Rightarrow> string \<Rightarrow> 'a checker_scheme" where
  "scan_directory w st directory =
     (if \<not> path_exists w directory then st
      else foldl (scan_walk_entry w) st (os_walk w directory))"

definition scan_directories :: "env \<Rightarrow> 'a checker_scheme \<Rightarrow> 'a checker_scheme" where
  "scan_directories w st = foldl (scan_directory w) st (directories st)"

text \<open>
  \<^verbatim>\<open>CustomFileChecker\<close>: the extension filter, and a scan that either walks each
  directory or lists it. A listing that fails for lack of permission skips the
  directory; any other exception of the listing leaves the scan.
\<close>

definition should_check_file :: "custom_checker \<Rightarrow> string \<Rightarrow> bool" where
  "should_check_file st file_path =
     (if file_types st = [] then True
      else lower (path_suffix file_path) \<in> set (file_types st))"

definition custom_walk_entry ::
  "env \<Rightarrow> custom_checker \<Rightarrow> string \<times> string list \<times> string list \<Rightarrow> custom_checker" where
  "custom_walk_entry w st entry =
     (case entry of (root, dirs, files) \<Rightarrow>
        foldl (\<lambda>st file.
                 let file_path = path_join root file
                 in if should_check_file st file_path then process_file w st file_path else st)
              st files)"

definition custom_list_items :: "env \<Rightarrow> custom_checker \<Rightarrow> string \<Rightarrow> string list \<Rightarrow> custom_checker" where
  "custom_list_items w st directory items =
     foldl (\<lambda>st item.
              let file_path = path_join directory item
              in if path_isfile w file_path \<and> should_check_file st file_path
                 then process_file w st file_path else st)
           st items"

fun custom_scan_loop :: "env \<Rightarrow> custom_checker \<Rightarrow> string list \<Rightarrow> exn option \<times> custom_checker" where
  "custom_scan_loop w st [] = (None, st)"
| "custom_scan_loop w st (directory # ds) =
     (if \<not> path_exists w directory then custom_scan_loop w st ds
      else if recursive st then
        custom_scan_loop w (foldl (custom_walk_entry w) st (os_walk w directory)) ds
      else
        (case os_listdir w directory of
           Inl e \<Rightarrow>
             if exn_class_of e = PermissionError then custom_scan_loop w st ds
             else (Some e, st)
         | Inr items \<Rightarrow> custom_scan_loop w (custom_list_items w st directory items) ds))"

definition custom_scan_directories :: "env \<Rightarrow> custom_checker \<Rightarrow> exn option \<times> custom_checker" where
  "custom_scan_directories w st = custom_scan_loop w st (directories st)"



text \<open>The number of recorded verdicts that carry a given status.\<close>

definition tally :: "string \<Rightarrow> pydict list \<Rightarrow> int" where
  "tally s rs = int (length (filter (\<lambda>r. status_of r = Some (PStr s)) rs))"

text \<open>
  The agreement between the summary and the recorded verdicts: \<^verbatim>\<open>total_files\<close> is the
  number of verdicts, each of the three status counters is the number of verdicts with
  its status, and the three counters together with the number of UNKNOWN verdicts, for
  which the summary has no counter, add up to \<^verbatim>\<open>total_files\<close>.
\<close>

definition counters_agree :: "'a checker_scheme \<Rightarrow> bool" where
  "counters_agree st =
     (total_files (summary st) = int (length (results st))
      \<and> intact_files (summary st) = tally ''INTACT'' (results st)
      \<and> corrupted_files (summary st) = tally ''CORRUPTED'' (results st)
      \<and> inaccessible_files (summary st) = tally ''INACCESSIBLE'' (results st)
      \<and> intact_files (summary st) + corrupted_files (summary st)
          + inaccessible_files (summary st) + tally ''UNKNOWN'' (results st)
         = total_files (summary st))"

section \<open>Example environments\<close>

text \<open>
  A directory \<^verbatim>\<open>data\<close> holding the given files, on a machine without pandas whose
  operator declines the installation. The library results are fixed: every JSON
  document is rejected, every XML document has a parse error, every archive fails to open.
\<close>

definition sample_node :: "bool \<Rightarrow> byte list \<Rightarrow> node" where
  "sample_node r bs =
     \<lparr>is_regular = True, st_mode = 33188, st_mtime = 1700000000, may_read = r, content = bs\<rparr>"

definition sample_dir :: node where
  "sample_dir =
     \<lparr>is_regular = False, st_mode = 16877, st_mtime = 1700000000, may_read = True,
      content = []\<rparr>"

definition sample_env :: "(string \<times> node) list \<Rightarrow> env" where
  "sample_env files =
     \<lparr>fs = map_of ((''data'', sample_dir) # map (\<lambda>(name, n). (''data/'' @ name, n)) files),
      os_walk = (\<lambda>d. if d = ''data'' then [(''data'', [], map fst files)] else []),
      os_listdir = (\<lambda>d. if d = ''data'' then Inr (map fst files)
                         else Inl (Exn OSError ''[Errno 2] No such file or directory'')),
      fromtimestamp_iso = (\<lambda>t. Inr ''2023-11-14T22:13:20''),
      hashlib_new = (\<lambda>a. Inr (\<lambda>bs. ''0f'')),
      csv_reader = (\<lambda>t sep. Inr []),
      json_loads = (\<lambda>t. Inl (Exn JSONDecodeError ''Expecting value'')),
      py_compile = (\<lambda>t. None),
      str_upper = (\<lambda>t. t),
      xml_etree = Some (\<lambda>bs. Inl (Exn ParseError ''no element found'')),
      zipfile_test = (\<lambda>bs. Inl (Exn OtherException ''File is not a zip file'')),
      import_pandas = (\<lambda>installed. Inl ''No module named pandas''),
      pct_round2 = (\<lambda>m c. PInt 0),
      console_reply = ''n'',
      pip_install = None,
      now_iso = ''2024-01-01T00:00:00''\<rparr>"

text \<open>The same machine with MD5 disabled in hashlib.\<close>

definition sample_env_no_md5 :: "(string \<times> node) list \<Rightarrow> env" where
  "sample_env_no_md5 files =
     (sample_env files)
       \<lparr>hashlib_new :=
          (\<lambda>a. if a = ''md5'' then Inl (Exn OtherException ''unsupported hash type md5'')
               else Inr (\<lambda>bs. ''0f''))\<rparr>"

text \<open>A fourteen-byte PDF: the header line \<^verbatim>\<open>%PDF-1.4\<close> and the marker \<^verbatim>\<open>%%EOF\<close>.\<close>

definition small_pdf :: "byte list" where
  "small_pdf =
     [0x25, 0x50, 0x44, 0x46, 0x2D, 0x31, 0x2E, 0x34, 0x0A, 0x25, 0x25, 0x45, 0x4F, 0x46]"

text \<open>
  A checker over that directory, the validator result it stores for the one file of the
  directory, the verdict for that file, and the verdict for a path that does not exist.
\<close>

definition sample_checker :: "(string \<times> node) list \<Rightarrow> checker" where
  "sample_checker files = init_checker (sample_env files) [''data''] ''json'' False"

definition sample_specific :: "string \<Rightarrow> bool \<Rightarrow> byte list \<Rightarrow> pydict" where
  "sample_specific name r bs =
     (case file_handlers (sample_env [(name, sample_node r bs)])
             (installer_ran
                (if lower (path_suffix (''data/'' @ name)) \<in> set [''.xlsx'', ''.xls'']
                 then count_excel
                        (check_excel_enhancement (sample_env [(name, sample_node r bs)])
                           (sample_checker [(name, sample_node r bs)]))
                 else sample_checker [(name, sample_node r bs)]))
             (lower (path_suffix (''data/'' @ name))) of
        Some handler \<Rightarrow> handler (''data/'' @ name)
      | None \<Rightarrow> unknown_format)"

definition sample_verdict :: "string \<Rightarrow> bool \<Rightarrow> byte list \<Rightarrow> pydict" where
  "sample_verdict name r bs =
     fst (check_file_integrity (sample_env [(name, sample_node r bs)])
            (sample_checker [(name, sample_node r bs)]) (''data/'' @ name))"


text \<open>The verdict for a two-byte text file on the machine without MD5.\<close>

definition no_md5_verdict :: pydict where
  "no_md5_verdict =
     fst (check_file_integrity (sample_env_no_md5 [(''note.txt'', sample_node True [0x68, 0x69])])
            (sample_checker [(''note.txt'', sample_node True [0x68, 0x69])]) ''data/note.txt'')"

text \<open>
  The scan of the directory by a fresh checker, and a command line that names a missing
  directory and the example directory.
\<close>

definition sample_scan :: "string \<Rightarrow> bool \<Rightarrow> byte list \<Rightarrow> checker" where
  "sample_scan name r bs =
     scan_directories (sample_env [(name, sample_node r bs)])
       (sample_checker [(name, sample_node r bs)])"


section \<open>Dictionaries and the verdict of one path\<close>




text \<open>The three outcomes of the Accessibility Prober, written out.\<close>

lemma basic_missing:
  "fs w p = None \<Longrightarrow>
   check_basic_accessibility w p =
     [(''file_path'', PStr p), (''file_name'', PStr (basename p)), (''file_size'', PInt 0),
      (''is_accessible'', PBool False), (''is_readable'', PBool False),
      (''permissions'', PStr []), (''last_modified'', PStr []),
      (''error'', PStr (''Arquivo n'' @ a_tilde @ ''o encontrado''))]"
  by (simp add: check_basic_accessibility_def)

lemma basic_time_error:
  "fs w p = Some n \<Longrightarrow> fromtimestamp_iso w (st_mtime n) = Inl e \<Longrightarrow>
   check_basic_accessibility w p =
     [(''file_path'', PStr p), (''file_name'', PStr (basename p)),
      (''file_size'', PInt (int (length (content n)))),
      (''is_accessible'', PBool False), (''is_readable'', PBool False),
      (''permissions'', PStr []), (''last_modified'', PStr []),
      (''error'', PStr (exn_str e))]"
  by (simp add: check_basic_accessibility_def)

lemma basic_ok:
  "fs w p = Some n \<Longrightarrow> fromtimestamp_iso w (st_mtime n) = Inr t \<Longrightarrow>
   check_basic_accessibility w p =
     [(''file_path'', PStr p), (''file_name'', PStr (basename p)),
      (''file_size'', PInt (int (length (content n)))),
      (''is_accessible'', PBool True), (''is_readable'', PBool (may_read n)),
      (''permissions'', PStr (last3 (py_oct (st_mode n)))), (''last_modified'', PStr t),
      (''error'', PNone)]"
  by (cases "may_read n") (simp_all add: check_basic_accessibility_def Let_def)

lemma basic_cases:
  obtains (missing) "fs w p = None"
  | (time_error) n e where "fs w p = Some n" "fromtimestamp_iso w (st_mtime n) = Inl e"
  | (ok) n t where "fs w p = Some n" "fromtimestamp_iso w (st_mtime n) = Inr t"
proof (cases "fs w p")
  case None
  then show ?thesis by (rule missing)
next
  case (Some n)
  then show ?thesis
    by (cases "fromtimestamp_iso w (st_mtime n)") (auto intro: time_error ok)
qed

text \<open>
  The validator result stored for a path: the registered handler of its extension, run
  after the negotiator when the file is a spreadsheet.
\<close>

lemma check_accessible:
  assumes "fs w p = Some n" "fromtimestamp_iso w (st_mtime n) = Inr t"
  shows "fst (check_file_integrity w st p) =
     determine_status
       [(''file_path'', PStr p), (''file_name'', PStr (basename p)),
        (''file_size'', PInt (int (length (content n)))),
        (''is_accessible'', PBool True), (''is_readable'', PBool (may_read n)),
        (''permissions'', PStr (last3 (py_oct (st_mode n)))), (''last_modified'', PStr t),
        (''error'', PNone),
        (''md5_hash'', opt_str (calculate_file_hash w p ''md5'')),
        (''sha256_hash'', opt_str (calculate_file_hash w p ''sha256'')),
        (''specific_checks'',
           PDict (case file_handlers w
                         (installer_ran
                            (if lower (path_suffix p) \<in> set [''.xlsx'', ''.xls'']
                             then count_excel (check_excel_enhancement w st) else st))
                         (lower (path_suffix p)) of
                    Some handler \<Rightarrow> handler p
                  | None \<Rightarrow> unknown_format))]"
  by (simp add: check_file_integrity_def basic_ok [OF assms] dict_get_def Let_def)

lemma check_inaccessible_missing:
  assumes "fs w p = None"
  shows "check_file_integrity w st p =
     ([(''file_path'', PStr p), (''file_name'', PStr (basename p)), (''file_size'', PInt 0),
       (''is_accessible'', PBool False), (''is_readable'', PBool False),
       (''permissions'', PStr []), (''last_modified'', PStr []),
       (''error'', PStr (''Arquivo n'' @ a_tilde @ ''o encontrado'')),
       (''integrity_status'', PStr ''INACCESSIBLE'')], st)"
  by (simp add: check_file_integrity_def basic_missing [OF assms] dict_get_def Let_def)

lemma check_inaccessible_time:
  assumes "fs w p = Some n" "fromtimestamp_iso w (st_mtime n) = Inl e"
  shows "check_file_integrity w st p =
     ([(''file_path'', PStr p), (''file_name'', PStr (basename p)),
       (''file_size'', PInt (int (length (content n)))),
       (''is_accessible'', PBool False), (''is_readable'', PBool False),
       (''permissions'', PStr []), (''last_modified'', PStr []),
       (''error'', PStr (exn_str e)),
       (''integrity_status'', PStr ''INACCESSIBLE'')], st)"
  by (simp add: check_file_integrity_def basic_time_error [OF assms] dict_get_def Let_def)

text \<open>What the classification block appends to a verdict that has its eleven fields.\<close>

lemma determine_status_result:
  "determine_status
     [(''file_path'', a), (''file_name'', b), (''file_size'', PInt sz),
      (''is_accessible'', c), (''is_readable'', PBool r), (''permissions'', d),
      (''last_modified'', e), (''error'', f), (''md5_hash'', g), (''sha256_hash'', h),
      (''specific_checks'', PDict sc)] =
   [(''file_path'', a), (''file_name'', b), (''file_size'', PInt sz),
    (''is_accessible'', c), (''is_readable'', PBool r), (''permissions'', d),
    (''last_modified'', e), (''error'', f), (''md5_hash'', g), (''sha256_hash'', h),
    (''specific_checks'', PDict sc)]
   @ (if r then
        (if sz = 0
         then [(''integrity_status'', PStr ''UNKNOWN''), (''warning'', PStr ''Arquivo vazio'')]
         else if dict_has ''error'' sc then [(''integrity_status'', PStr ''CORRUPTED'')]
         else [(''integrity_status'', PStr ''INTACT'')])
      else [(''integrity_status'', PStr ''CORRUPTED'')])"
  by (simp add: determine_status_def dict_get_def dict_has_def error_in_specific_def)

lemma verdict_cases:
  fixes st :: "'a checker_scheme"
  obtains
    (inaccessible) b sz e where
      "check_file_integrity w st p =
         ([(''file_path'', PStr p), (''file_name'', b), (''file_size'', PInt sz),
           (''is_accessible'', PBool False), (''is_readable'', PBool False),
           (''permissions'', PStr []), (''last_modified'', PStr []), (''error'', PStr e),
           (''integrity_status'', PStr ''INACCESSIBLE'')], st)"
      "check_basic_accessibility w p =
         [(''file_path'', PStr p), (''file_name'', b), (''file_size'', PInt sz),
           (''is_accessible'', PBool False), (''is_readable'', PBool False),
           (''permissions'', PStr []), (''last_modified'', PStr []), (''error'', PStr e)]"
  | (accessible) n t sc where
      "fs w p = Some n" "fromtimestamp_iso w (st_mtime n) = Inr t"
      "fst (check_file_integrity w st p) =
         [(''file_path'', PStr p), (''file_name'', PStr (basename p)),
          (''file_size'', PInt (int (length (content n)))),
          (''is_accessible'', PBool True), (''is_readable'', PBool (may_read n)),
          (''permissions'', PStr (last3 (py_oct (st_mode n)))), (''last_modified'', PStr t),
          (''error'', PNone),
          (''md5_hash'', opt_str (calculate_file_hash w p ''md5'')),
          (''sha256_hash'', opt_str (calculate_file_hash w p ''sha256'')),
          (''specific_checks'', PDict sc)]
         @ (if may_read n then
              (if content n = []
               then [(''integrity_status'', PStr ''UNKNOWN''), (''warning'', PStr ''Arquivo vazio'')]
               else if dict_has ''error'' sc then [(''integrity_status'', PStr ''CORRUPTED'')]
               else [(''integrity_status'', PStr ''INTACT'')])
            else [(''integrity_status'', PStr ''CORRUPTED'')])"
      "sc = (case file_handlers w
                         (installer_ran
                            (if lower (path_suffix p) \<in> set [''.xlsx'', ''.xls'']
                             then count_excel (check_excel_enhancement w st) else st))
                         (lower (path_suffix p)) of
                    Some handler \<Rightarrow> handler p
                  | None \<Rightarrow> unknown_format)"
proof (cases rule: basic_cases [of w p])
  case missing
  show ?thesis
    by (rule inaccessible [OF check_inaccessible_missing [OF missing] basic_missing [OF missing]])
next
  case (time_error n e)
  show ?thesis
    by (rule inaccessible [OF check_inaccessible_time [OF time_error] basic_time_error [OF time_error]])
next
  case (ok n t)
  show ?thesis
    by (rule accessible [OF ok _ refl])
       (simp add: check_accessible [OF ok] determine_status_result)
qed



lemma verdict_status:
  fixes st :: "'a checker_scheme"
  assumes r_def: "r = fst (check_file_integrity w st p)"
  shows "status_of r =
     Some (PStr
       (if dict_get r ''is_accessible'' \<noteq> Some (PBool True) then ''INACCESSIBLE''
        else if dict_get r ''is_readable'' = Some (PBool True) then
          (if dict_get r ''file_size'' = Some (PInt 0) then ''UNKNOWN''
           else if error_in_specific r then ''CORRUPTED''
           else ''INTACT'')
        else ''CORRUPTED''))"
proof (cases rule: verdict_cases [of w st p])
  case (inaccessible b sz e)
  then show ?thesis
    by (simp add: r_def status_of_def dict_get_def)
next
  case (accessible n t sc)
  then show ?thesis
    by (simp add: r_def status_of_def dict_get_def dict_has_def error_in_specific_def)
qed







lemma check_accessible_state:
  fixes st :: "'a checker_scheme"
  assumes "fs w p = Some n" "fromtimestamp_iso w (st_mtime n) = Inr t"
  shows "snd (check_file_integrity w st p) =
           (if lower (path_suffix p) \<in> set [''.xlsx'', ''.xls'']
            then count_excel (check_excel_enhancement w st) else st)"
  by (simp add: check_file_integrity_def basic_ok [OF assms] dict_get_def Let_def)


lemma verdict_warning:
  fixes st :: "'a checker_scheme"
  assumes "status_of (fst (check_file_integrity w st p)) = Some (PStr ''UNKNOWN'')"
  shows "dict_get (fst (check_file_integrity w st p)) ''warning'' = Some (PStr ''Arquivo vazio'')"
proof (cases rule: verdict_cases [of w st p])
  case (inaccessible b sz e)
  with assms show ?thesis
    by (simp add: status_of_def dict_get_def)
next
  case (accessible n t sc)
  with assms show ?thesis
    by (simp add: status_of_def dict_get_def split: if_splits)
qed

lemma sample_fs:
  "fs (sample_env [(name, nd)]) (''data/'' @ name) = Some nd"
  "fromtimestamp_iso (sample_env files) t = Inr ''2023-11-14T22:13:20''"
  by (simp_all add: sample_env_def)

lemma sample_verdict_unfold:
  "sample_verdict name r bs =
     [(''file_path'', PStr (''data/'' @ name)), (''file_name'', PStr (basename (''data/'' @ name))),
      (''file_size'', PInt (int (length bs))),
      (''is_accessible'', PBool True), (''is_readable'', PBool r),
      (''permissions'', PStr (last3 (py_oct 33188))),
      (''last_modified'', PStr ''2023-11-14T22:13:20''),
      (''error'', PNone),
      (''md5_hash'', opt_str (calculate_file_hash (sample_env [(name, sample_node r bs)])
                                (''data/'' @ name) ''md5'')),
      (''sha256_hash'', opt_str (calculate_file_hash (sample_env [(name, sample_node r bs)])
                                   (''data/'' @ name) ''sha256'')),
      (''specific_checks'', PDict (sample_specific name r bs))]
     @ (if r then
          (if bs = []
           then [(''integrity_status'', PStr ''UNKNOWN''), (''warning'', PStr ''Arquivo vazio'')]
           else if dict_has ''error'' (sample_specific name r bs)
                then [(''integrity_status'', PStr ''CORRUPTED'')]
                else [(''integrity_status'', PStr ''INTACT'')])
        else [(''integrity_status'', PStr ''CORRUPTED'')])"
proof -
  have "sample_verdict name r bs =
     determine_status
       [(''file_path'', PStr (''data/'' @ name)),
        (''file_name'', PStr (basename (''data/'' @ name))),
        (''file_size'', PInt (int (length (content (sample_node r bs))))),
        (''is_accessible'', PBool True), (''is_readable'', PBool (may_read (sample_node r bs))),
        (''permissions'', PStr (last3 (py_oct (st_mode (sample_node r bs))))),
        (''last_modified'', PStr ''2023-11-14T22:13:20''),
        (''error'', PNone),
        (''md5_hash'', opt_str (calculate_file_hash (sample_env [(name, sample_node r bs)])
                                  (''data/'' @ name) ''md5'')),
        (''sha256_hash'', opt_str (calculate_file_hash (sample_env [(name, sample_node r bs)])
                                     (''data/'' @ name) ''sha256'')),
        (''specific_checks'', PDict (sample_specific name r bs))]"
    by (simp only: sample_verdict_def sample_specific_def check_accessible [OF sample_fs])
  then show ?thesis
    by (simp add: determine_status_result sample_node_def)
qed

text \<open>
  Claim C2, as stated, fails: an accessible zero-byte file that the process may not read
  is classified CORRUPTED, since the classification tests \<^verbatim>\<open>is_readable\<close> before the
  size.
\<close>

theorem empty_unreadable_is_corrupted:
  "dict_get (sample_verdict ''locked.txt'' False []) ''is_accessible'' = Some (PBool True)
   \<and> dict_get (sample_verdict ''locked.txt'' False []) ''file_size'' = Some (PInt 0)
   \<and> status_of (sample_verdict ''locked.txt'' False []) = Some (PStr ''CORRUPTED'')
   \<and> status_of (sample_verdict ''locked.txt'' False []) \<noteq> Some (PStr ''UNKNOWN'')"
  by (simp add: sample_verdict_unfold status_of_def dict_get_def)

text \<open>
  Claim C2, amended. For every accessible zero-byte file, whatever its extension: when it
  is readable the status is UNKNOWN with the warning \<^verbatim>\<open>Arquivo vazio\<close> (empty file) and
  is not CORRUPTED; when it is not readable the status is CORRUPTED.
\<close>

theorem empty_readable_is_unknown:
  fixes st :: "'a checker_scheme"
  assumes "dict_get (fst (check_file_integrity w st p)) ''is_accessible'' = Some (PBool True)"
    and "dict_get (fst (check_file_integrity w st p)) ''file_size'' = Some (PInt 0)"
  shows "(dict_get (fst (check_file_integrity w st p)) ''is_readable'' = Some (PBool True)
           \<longrightarrow> status_of (fst (check_file_integrity w st p)) = Some (PStr ''UNKNOWN'')
               \<and> dict_get (fst (check_file_integrity w st p)) ''warning''
                   = Some (PStr ''Arquivo vazio'')
               \<and> status_of (fst (check_file_integrity w st p)) \<noteq> Some (PStr ''CORRUPTED''))
       \<and> (dict_get (fst (check_file_integrity w st p)) ''is_readable'' \<noteq> Some (PBool True)
           \<longrightarrow> status_of (fst (check_file_integrity w st p)) = Some (PStr ''CORRUPTED''))"
proof -
  define r where "r = fst (check_file_integrity w st p)"
  have status: "status_of r = Some (PStr
       (if dict_get r ''is_readable'' = Some (PBool True) then ''UNKNOWN'' else ''CORRUPTED''))"
    using verdict_status [OF r_def] assms by (simp add: r_def)
  have unknown: "dict_get r ''is_readable'' = Some (PBool True) \<Longrightarrow>
      dict_get r ''warning'' = Some (PStr ''Arquivo vazio'')"
    using verdict_warning [of w st p] status by (simp add: r_def)
  show ?thesis
    unfolding r_def [symmetric] using status unknown by simp
qed

theorem empty_readable_is_unknown_witness:
  "dict_get (sample_verdict ''empty.csv'' True []) ''is_accessible'' = Some (PBool True)
   \<and> dict_get (sample_verdict ''empty.csv'' True []) ''file_size'' = Some (PInt 0)
   \<and> dict_get (sample_verdict ''empty.csv'' True []) ''is_readable'' = Some (PBool True)
   \<and> status_of (sample_verdict ''empty.csv'' True []) = Some (PStr ''UNKNOWN'')
   \<and> dict_get (sample_verdict ''empty.csv'' True []) ''warning'' = Some (PStr ''Arquivo vazio'')"
proof -
  have flags:
    "dict_get (sample_verdict ''empty.csv'' True []) ''is_accessible'' = Some (PBool True)"
    "dict_get (sample_verdict ''empty.csv'' True []) ''file_size'' = Some (PInt 0)"
    "dict_get (sample_verdict ''empty.csv'' True []) ''is_readable'' = Some (PBool True)"
    by (simp_all add: sample_verdict_unfold dict_get_def)
  from empty_readable_is_unknown [OF flags(1,2) [unfolded sample_verdict_def]] flags
  show ?thesis
    by (simp add: sample_verdict_def)
qed




section \<open>Claims about the validators\<close>

lemma open_rb_readable:
  "fs w p = Some n \<Longrightarrow> is_regular n \<Longrightarrow> may_read n \<Longrightarrow> open_rb w p = Inr (content n)"
  by (simp add: open_rb_def)

lemma open_rb_Inr:
  "open_rb w p = Inr bs \<Longrightarrow> \<exists>n. fs w p = Some n \<and> is_regular n \<and> may_read n \<and> bs = content n"
  by (auto simp: open_rb_def split: option.splits if_splits)

lemma hash_chunks_all: "hash_chunks rest fed = fed @ rest"
proof (induction rest fed rule: hash_chunks.induct)
  case (1 rest fed)
  show ?case
  proof (cases "take 4096 rest = []")
    case True
    then have "rest = []" by (cases rest) simp_all
    with True show ?thesis by (subst hash_chunks.simps) simp
  next
    case False
    with 1 show ?thesis by (subst hash_chunks.simps) (simp add: Let_def)
  qed
qed

lemma calculate_file_hash_Some:
  assumes "calculate_file_hash w p a = Some h"
  shows "\<exists>n hexdigest. fs w p = Some n \<and> is_regular n \<and> may_read n
           \<and> hashlib_new w a = Inr hexdigest \<and> h = hexdigest (content n)"
  using assms
  by (auto simp: calculate_file_hash_def hash_chunks_all split: sum.splits dest: open_rb_Inr)

lemma verdict_by_handler:
  fixes st :: "'a checker_scheme"
  assumes "fs w p = Some n" "fromtimestamp_iso w (st_mtime n) = Inr t"
    and "may_read n" "content n \<noteq> []"
    and "lower (path_suffix p) \<notin> set [''.xlsx'', ''.xls'']"
    and "file_handlers w (installer_ran st) (lower (path_suffix p)) = Some h"
  shows "status_of (fst (check_file_integrity w st p)) =
           Some (PStr (if dict_has ''error'' (h p) then ''CORRUPTED'' else ''INTACT''))"
    and "dict_get (fst (check_file_integrity w st p)) ''specific_checks'' = Some (PDict (h p))"
  using assms(3-6)
  by (simp_all add: check_accessible [OF assms(1,2)] determine_status_result
        status_of_def dict_get_def)

lemma handler_of:
  "file_handlers w i ''.xml'' = Some (check_xml_file w)"
  "file_handlers w i ''.py'' = Some (check_python_file w)"
  "file_handlers w i ''.pdf'' = Some (check_pdf_file w)"
  "file_handlers w i ''.json'' = Some (check_json_file w)"
  "file_handlers w i ''.xlsx'' = Some (check_excel_file w i)"
  "file_handlers w i ''.xls'' = Some (check_excel_file w i)"
  by (simp_all add: file_handlers_def)

text \<open>
  Claim C8. For every readable non-empty XML file: when the parse fails with a parse
  error, the validator result is \<^verbatim>\<open>format_valid = True\<close>, \<^verbatim>\<open>well_formed = False\<close> and
  the diagnostic under \<^verbatim>\<open>xml_error\<close>, with no \<^verbatim>\<open>error\<close> key, and the file is INTACT;
  the key \<^verbatim>\<open>error\<close> is set exactly when ElementTree cannot be imported or the parse
  raises an exception other than a parse error, and only then is the file CORRUPTED.
\<close>

theorem xml_parse_error_is_soft:
  fixes st :: "'a checker_scheme"
  assumes "fs w p = Some n" "is_regular n" "may_read n" "content n \<noteq> []"
    and "fromtimestamp_iso w (st_mtime n) = Inr t"
    and "lower (path_suffix p) = ''.xml''"
  shows "(\<forall>parse e. xml_etree w = Some parse \<and> parse (content n) = Inl e
             \<and> exn_class_of e = ParseError \<longrightarrow>
           check_xml_file w p =
             [(''format_valid'', PBool True), (''well_formed'', PBool False),
              (''xml_error'', PStr (exn_str e))]
           \<and> status_of (fst (check_file_integrity w st p)) = Some (PStr ''INTACT''))
       \<and> (dict_has ''error'' (check_xml_file w p) \<longleftrightarrow>
            xml_etree w = None
            \<or> (\<exists>parse e. xml_etree w = Some parse \<and> parse (content n) = Inl e
                  \<and> exn_class_of e \<noteq> ParseError))
       \<and> (status_of (fst (check_file_integrity w st p)) = Some (PStr ''CORRUPTED'')
            \<longleftrightarrow> dict_has ''error'' (check_xml_file w p))"
proof -
  note opened = open_rb_readable [OF assms(1-3)]
  have status: "status_of (fst (check_file_integrity w st p)) =
      Some (PStr (if dict_has ''error'' (check_xml_file w p) then ''CORRUPTED'' else ''INTACT''))"
    using verdict_by_handler(1) [OF assms(1) assms(5) assms(3) assms(4), of st "check_xml_file w"]
    by (simp add: assms(6) handler_of)
  have soft: "check_xml_file w p =
             [(''format_valid'', PBool True), (''well_formed'', PBool False),
              (''xml_error'', PStr (exn_str e))]"
    if "xml_etree w = Some parse" "parse (content n) = Inl e" "exn_class_of e = ParseError"
    for parse e
    using that by (simp add: check_xml_file_def opened)
  have hard: "dict_has ''error'' (check_xml_file w p) \<longleftrightarrow>
            xml_etree w = None
            \<or> (\<exists>parse e. xml_etree w = Some parse \<and> parse (content n) = Inl e
                  \<and> exn_class_of e \<noteq> ParseError)"
    by (cases "xml_etree w")
       (auto simp: check_xml_file_def opened dict_has_def Let_def split: sum.splits)
  have "status_of (fst (check_file_integrity w st p)) = Some (PStr ''INTACT'')"
    if "xml_etree w = Some parse" "parse (content n) = Inl e" "exn_class_of e = ParseError"
    for parse e
    using status soft [OF that] by (simp add: dict_has_def)
  with soft hard status show ?thesis
    by auto
qed


lemma sample_suffix:
  "lower (path_suffix ''data/bad.xml'') = ''.xml''"
  "lower (path_suffix ''data/bad.py'') = ''.py''"
  "lower (path_suffix ''data/small.pdf'') = ''.pdf''"
  "lower (path_suffix ''data/a.json'') = ''.json''"
  "lower (path_suffix ''data/bad.xlsx'') = ''.xlsx''"
  "lower (path_suffix ''data/note.txt'') = ''.txt''"
  by (simp_all add: path_suffix_def basename_def lower_def lower_char_def)

theorem xml_parse_error_is_soft_witness:
  "fs (sample_env [(''bad.xml'', sample_node True [0x3C])]) ''data/bad.xml''
     = Some (sample_node True [0x3C])
   \<and> is_regular (sample_node True [0x3C]) \<and> may_read (sample_node True [0x3C])
   \<and> content (sample_node True [0x3C]) \<noteq> []
   \<and> lower (path_suffix ''data/bad.xml'') = ''.xml''
   \<and> check_xml_file (sample_env [(''bad.xml'', sample_node True [0x3C])]) ''data/bad.xml''
       = [(''format_valid'', PBool True), (''well_formed'', PBool False),
          (''xml_error'', PStr ''no element found'')]
   \<and> status_of (sample_verdict ''bad.xml'' True [0x3C]) = Some (PStr ''INTACT'')"
proof -
  define w where "w = sample_env [(''bad.xml'', sample_node True [0x3C])]"
  define n where "n = sample_node True [0x3C]"
  have found: "fs w ''data/bad.xml'' = Some n"
    and stamp: "fromtimestamp_iso w (st_mtime n) = Inr ''2023-11-14T22:13:20''"
    and node: "is_regular n" "may_read n" "content n \<noteq> []"
    and parse: "xml_etree w = Some (\<lambda>bs. Inl (Exn ParseError ''no element found''))"
    by (simp_all add: w_def n_def sample_env_def sample_node_def)
  note facts = xml_parse_error_is_soft [OF found node stamp sample_suffix(1),
      of "sample_checker [(''bad.xml'', sample_node True [0x3C])]", THEN conjunct1, rule_format,
      of "\<lambda>bs. Inl (Exn ParseError ''no element found'')" "Exn ParseError ''no element found''"]
  have "check_xml_file w ''data/bad.xml''
       = [(''format_valid'', PBool True), (''well_formed'', PBool False),
          (''xml_error'', PStr ''no element found'')]
     \<and> status_of (fst (check_file_integrity w
            (sample_checker [(''bad.xml'', sample_node True [0x3C])]) ''data/bad.xml''))
         = Some (PStr ''INTACT'')"
    using facts parse by simp
  with found node sample_suffix(1) show ?thesis
    by (simp add: w_def n_def sample_verdict_def)
qed


lemma handler_text:
  "file_handlers w i ''.txt'' = Some (check_text_file w)"
  "file_handlers w i ''.csv'' = Some (check_csv_file w)"
  by (simp_all add: file_handlers_def)

lemma read_text_utf8_invalid:
  assumes "fs w p = Some n" "is_regular n" "may_read n" "utf8_decode (content n) = None"
  shows "read_text w p ''utf-8'' = Inl (Exn UnicodeDecodeError ''utf-8 codec can not decode bytes'')"
  using assms(4) by (simp add: read_text_def open_rb_readable [OF assms(1-3)] decode_def)

lemma read_text_latin1:
  assumes "fs w p = Some n" "is_regular n" "may_read n"
  shows "read_text w p ''latin1'' = Inr (universal_newlines (map unat (content n)))"
  by (simp add: read_text_def open_rb_readable [OF assms] decode_def latin1_decode_def)

text \<open>
  Claim C10. For every accessible, readable, non-empty \<^verbatim>\<open>.py\<close> file whose bytes are not
  valid UTF-8, the read of the Python validator raises \<^verbatim>\<open>UnicodeDecodeError\<close>, which is
  not a \<^verbatim>\<open>SyntaxError\<close>: the result carries \<^verbatim>\<open>error\<close> and the file is CORRUPTED. The
  text validator accepts the same bytes as Latin-1 without an error, and so does the CSV
  validator whenever the csv reader returns rows.
\<close>

theorem python_invalid_utf8_is_corrupted:
  fixes st :: "'a checker_scheme"
  assumes "fs w p = Some n" "is_regular n" "may_read n" "content n \<noteq> []"
    and "fromtimestamp_iso w (st_mtime n) = Inr t"
    and "lower (path_suffix p) = ''.py''"
    and "utf8_decode (content n) = None"
  shows "check_python_file w p =
           [(''format_valid'', PBool False), (''syntax_valid'', PBool False),
            (''error'', PStr ''utf-8 codec can not decode bytes'')]
       \<and> status_of (fst (check_file_integrity w st p)) = Some (PStr ''CORRUPTED'')
       \<and> \<not> dict_has ''error'' (check_text_file w p)
       \<and> dict_get (check_text_file w p) ''encoding'' = Some (PStr ''latin1'')
       \<and> (\<forall>rows. csv_reader w (universal_newlines (map unat (content n)))
                    (fst (pick_separator (take 1024 (universal_newlines (map unat (content n))))))
                  = Inr rows \<longrightarrow>
             \<not> dict_has ''error'' (check_csv_file w p)
             \<and> dict_get (check_csv_file w p) ''encoding'' = Some (PStr ''latin1''))"
proof -
  note utf8 = read_text_utf8_invalid [OF assms(1-3) assms(7)]
  note latin1 = read_text_latin1 [OF assms(1-3)]
  have py_err: "check_python_file w p =
           [(''format_valid'', PBool False), (''syntax_valid'', PBool False),
            (''error'', PStr ''utf-8 codec can not decode bytes'')]"
    by (simp add: check_python_file_def utf8 python_except_def)
  have "status_of (fst (check_file_integrity w st p)) =
      Some (PStr (if dict_has ''error'' (check_python_file w p) then ''CORRUPTED'' else ''INTACT''))"
    using verdict_by_handler(1) [OF assms(1) assms(5) assms(3) assms(4), of st "check_python_file w"]
    by (simp add: assms(6) handler_of)
  then have status: "status_of (fst (check_file_integrity w st p)) = Some (PStr ''CORRUPTED'')"
    by (simp add: py_err dict_has_def)
  have text_ok: "\<not> dict_has ''error'' (check_text_file w p)
      \<and> dict_get (check_text_file w p) ''encoding'' = Some (PStr ''latin1'')"
    by (simp add: check_text_file_def utf8 latin1 Let_def dict_has_def dict_get_def)
  have csv_ok: "\<not> dict_has ''error'' (check_csv_file w p)
             \<and> dict_get (check_csv_file w p) ''encoding'' = Some (PStr ''latin1'')"
    if "csv_reader w (universal_newlines (map unat (content n)))
                    (fst (pick_separator (take 1024 (universal_newlines (map unat (content n))))))
                  = Inr rows" for rows
    using that by (simp add: check_csv_file_def utf8 latin1 Let_def dict_has_def dict_get_def)
  from py_err status text_ok csv_ok show ?thesis
    by blast
qed

theorem python_invalid_utf8_is_corrupted_witness:
  "fs (sample_env [(''bad.py'', sample_node True [0xFF])]) ''data/bad.py''
     = Some (sample_node True [0xFF])
   \<and> is_regular (sample_node True [0xFF]) \<and> may_read (sample_node True [0xFF])
   \<and> content (sample_node True [0xFF]) \<noteq> []
   \<and> lower (path_suffix ''data/bad.py'') = ''.py''
   \<and> utf8_decode (content (sample_node True [0xFF])) = None
   \<and> status_of (sample_verdict ''bad.py'' True [0xFF]) = Some (PStr ''CORRUPTED'')"
proof -
  define w where "w = sample_env [(''bad.py'', sample_node True [0xFF])]"
  define n where "n = sample_node True [0xFF]"
  have found: "fs w ''data/bad.py'' = Some n"
    and stamp: "fromtimestamp_iso w (st_mtime n) = Inr ''2023-11-14T22:13:20''"
    and node: "is_regular n" "may_read n" "content n \<noteq> []"
    by (simp_all add: w_def n_def sample_env_def sample_node_def)
  have invalid: "utf8_decode (content n) = None"
    by (simp add: n_def sample_node_def utf8_decode.simps utf8_next_def)
  from python_invalid_utf8_is_corrupted [OF found node stamp sample_suffix(2) invalid,
      of "sample_checker [(''bad.py'', sample_node True [0xFF])]"]
  have "status_of (fst (check_file_integrity w
            (sample_checker [(''bad.py'', sample_node True [0xFF])]) ''data/bad.py''))
         = Some (PStr ''CORRUPTED'')"
    by blast
  with found node invalid sample_suffix(2) show ?thesis
    by (simp add: w_def n_def sample_verdict_def)
qed

text \<open>
  Claim C6. A digest (a hexadecimal string under \<^verbatim>\<open>md5_hash\<close> or \<^verbatim>\<open>sha256_hash\<close>) is in
  the verdict only if the file is accessible and readable. For an accessible file each
  of the two keys holds the digest, or \<^verbatim>\<open>None\<close> when its computation failed, and the
  verdict still has its validator result and a status: the scan of the file went on.
\<close>

theorem digests_only_if_readable:
  fixes st :: "'a checker_scheme"
  shows "(\<forall>h. dict_get (fst (check_file_integrity w st p)) ''md5_hash'' = Some (PStr h)
              \<or> dict_get (fst (check_file_integrity w st p)) ''sha256_hash'' = Some (PStr h)
            \<longrightarrow> dict_get (fst (check_file_integrity w st p)) ''is_accessible'' = Some (PBool True)
                \<and> dict_get (fst (check_file_integrity w st p)) ''is_readable'' = Some (PBool True))
       \<and> (dict_get (fst (check_file_integrity w st p)) ''is_accessible'' = Some (PBool True)
            \<longrightarrow> dict_get (fst (check_file_integrity w st p)) ''md5_hash''
                  = Some (case calculate_file_hash w p ''md5'' of
                            None \<Rightarrow> PNone | Some h \<Rightarrow> PStr h)
                \<and> dict_get (fst (check_file_integrity w st p)) ''sha256_hash''
                  = Some (case calculate_file_hash w p ''sha256'' of
                            None \<Rightarrow> PNone | Some h \<Rightarrow> PStr h)
                \<and> dict_has ''specific_checks'' (fst (check_file_integrity w st p))
                \<and> (\<exists>s \<in> set [''INTACT'', ''CORRUPTED'', ''UNKNOWN''].
                      status_of (fst (check_file_integrity w st p)) = Some (PStr s)))"
proof (cases rule: verdict_cases [of w st p])
  case (inaccessible b sz e)
  then show ?thesis
    by (simp add: dict_get_def)
next
  case (accessible n t sc)
  have readable: "may_read n" if "calculate_file_hash w p a = Some h" for a h
    using calculate_file_hash_Some [OF that] accessible(1) by auto
  have digest: "dict_get (fst (check_file_integrity w st p)) ''md5_hash''
                  = Some (opt_str (calculate_file_hash w p ''md5''))"
      "dict_get (fst (check_file_integrity w st p)) ''sha256_hash''
                  = Some (opt_str (calculate_file_hash w p ''sha256''))"
      "dict_get (fst (check_file_integrity w st p)) ''is_accessible'' = Some (PBool True)"
      "dict_get (fst (check_file_integrity w st p)) ''is_readable'' = Some (PBool (may_read n))"
      "dict_has ''specific_checks'' (fst (check_file_integrity w st p))"
    by (simp_all add: accessible(3) dict_get_def dict_has_def)
  have status: "\<exists>s \<in> set [''INTACT'', ''CORRUPTED'', ''UNKNOWN''].
                      status_of (fst (check_file_integrity w st p)) = Some (PStr s)"
    by (simp add: accessible(3) status_of_def dict_get_def)
  have only_if: "may_read n"
    if "dict_get (fst (check_file_integrity w st p)) ''md5_hash'' = Some (PStr h)
        \<or> dict_get (fst (check_file_integrity w st p)) ''sha256_hash'' = Some (PStr h)" for h
    using that readable unfolding digest(1,2)
    by (auto simp: opt_str_def split: option.splits)
  from digest status only_if show ?thesis
    by (simp add: opt_str_def)
qed


theorem digests_only_if_readable_witness:
  "dict_get no_md5_verdict ''is_accessible'' = Some (PBool True)
   \<and> dict_get no_md5_verdict ''is_readable'' = Some (PBool True)
   \<and> dict_get no_md5_verdict ''md5_hash'' = Some PNone
   \<and> dict_get no_md5_verdict ''sha256_hash'' = Some (PStr ''0f'')
   \<and> dict_has ''specific_checks'' no_md5_verdict
   \<and> status_of no_md5_verdict = Some (PStr ''INTACT'')"
proof -
  define w where "w = sample_env_no_md5 [(''note.txt'', sample_node True [0x68, 0x69])]"
  define n where "n = sample_node True [0x68, 0x69]"
  define st where "st = sample_checker [(''note.txt'', sample_node True [0x68, 0x69])]"
  have found: "fs w ''data/note.txt'' = Some n"
    and stamp: "fromtimestamp_iso w (st_mtime n) = Inr ''2023-11-14T22:13:20''"
    and node: "is_regular n" "may_read n" "content n \<noteq> []"
    by (simp_all add: w_def n_def sample_env_no_md5_def sample_env_def sample_node_def)
  have flag: "dict_get (fst (check_file_integrity w st ''data/note.txt'')) ''is_accessible''
      = Some (PBool True)"
    by (simp add: check_accessible [OF found stamp] determine_status_result dict_get_def)
  have md5: "calculate_file_hash w ''data/note.txt'' ''md5'' = None"
    by (simp add: calculate_file_hash_def w_def sample_env_no_md5_def sample_env_def)
  have sha256: "hashlib_new w ''sha256'' = Inr (\<lambda>bs. ''0f'')"
    by (simp add: w_def sample_env_no_md5_def sample_env_def)
  have sha: "calculate_file_hash w ''data/note.txt'' ''sha256'' = Some ''0f''"
    by (simp add: calculate_file_hash_def open_rb_readable [OF found node(1,2)] sha256)
  have decoded: "utf8_decode (content n) = Some [104, 105]"
    by (simp add: n_def sample_node_def utf8_decode.simps utf8_next_def)
  have no_error: "\<not> dict_has ''error'' (check_text_file w ''data/note.txt'')"
    by (simp add: check_text_file_def read_text_def open_rb_readable [OF found node(1,2)]
          decode_def decoded Let_def dict_has_def)
  have status: "status_of (fst (check_file_integrity w st ''data/note.txt'')) = Some (PStr ''INTACT'')"
    using verdict_by_handler(1) [OF found stamp node(2,3), of st "check_text_file w"] no_error
    by (simp add: sample_suffix handler_text)
  from digests_only_if_readable [of w st "''data/note.txt''"] flag
  have "dict_get (fst (check_file_integrity w st ''data/note.txt'')) ''md5_hash'' = Some PNone"
    and "dict_get (fst (check_file_integrity w st ''data/note.txt'')) ''sha256_hash''
           = Some (PStr ''0f'')"
    and "dict_has ''specific_checks'' (fst (check_file_integrity w st ''data/note.txt''))"
    by (simp_all add: md5 sha)
  note stored = this
  from digests_only_if_readable [of w st "''data/note.txt''"] stored(2)
  have "dict_get (fst (check_file_integrity w st ''data/note.txt'')) ''is_readable''
          = Some (PBool True)"
    by blast
  with flag status stored show ?thesis
    unfolding no_md5_verdict_def w_def [symmetric] st_def [symmetric] by blast
qed

text \<open>The end-of-file probe of the PDF validator on short and on long files.\<close>

lemma pdf_short_file:
  assumes "fs w p = Some n" "is_regular n" "may_read n" "length (content n) < 1024"
  shows "dict_get (check_pdf_file w p) ''error'' = Some (PStr ''[Errno 22] Invalid argument'')"
    and "\<not> dict_has ''has_eof'' (check_pdf_file w p)"
  using assms(4)
  by (simp_all add: check_pdf_file_def open_rb_readable [OF assms(1-3)] seek_end_def Let_def
        dict_get_def dict_has_def)

lemma pdf_long_file:
  assumes "fs w p = Some n" "is_regular n" "may_read n" "1024 \<le> length (content n)"
  shows "\<not> dict_has ''error'' (check_pdf_file w p)"
    and "dict_get (check_pdf_file w p) ''format_valid''
           = Some (PBool (startswith (content n) pdf_magic))"
    and "dict_has ''has_eof'' (check_pdf_file w p)
           \<longleftrightarrow> contains (drop (length (content n) - 1024) (content n)) eof_marker"
proof -
  have seek: "seek_end (content n) (- 1024) = Inr (length (content n) - 1024)"
    using assms(4) by (simp add: seek_end_def nat_diff_distrib')
  have header: "startswith (take 8 (content n)) pdf_magic = startswith (content n) pdf_magic"
    by (simp add: startswith_def pdf_magic_def)
  show "\<not> dict_has ''error'' (check_pdf_file w p)"
    and "dict_get (check_pdf_file w p) ''format_valid''
           = Some (PBool (startswith (content n) pdf_magic))"
    and "dict_has ''has_eof'' (check_pdf_file w p)
           \<longleftrightarrow> contains (drop (length (content n) - 1024) (content n)) eof_marker"
    by (simp_all add: check_pdf_file_def open_rb_readable [OF assms(1-3)] seek header Let_def
        dict_get_def dict_has_def)
qed

text \<open>
  Claim C5 fails on the code. A readable fourteen-byte file that starts with
  \<^verbatim>\<open>%PDF-\<close> and contains \<^verbatim>\<open>%%EOF\<close> passes the header test, then the seek to 1024
  bytes before the end raises, the validator stores the exception under \<^verbatim>\<open>error\<close>
  without recording the marker, and the file is CORRUPTED.
\<close>

theorem small_pdf_is_corrupted:
  "length small_pdf = 14
   \<and> startswith small_pdf pdf_magic
   \<and> contains small_pdf eof_marker
   \<and> dict_get (check_pdf_file (sample_env [(''small.pdf'', sample_node True small_pdf)])
                ''data/small.pdf'') ''format_valid'' = Some (PBool True)
   \<and> dict_get (check_pdf_file (sample_env [(''small.pdf'', sample_node True small_pdf)])
                ''data/small.pdf'') ''error'' = Some (PStr ''[Errno 22] Invalid argument'')
   \<and> \<not> dict_has ''has_eof''
         (check_pdf_file (sample_env [(''small.pdf'', sample_node True small_pdf)])
            ''data/small.pdf'')
   \<and> status_of (sample_verdict ''small.pdf'' True small_pdf) = Some (PStr ''CORRUPTED'')"
proof -
  define w where "w = sample_env [(''small.pdf'', sample_node True small_pdf)]"
  define n where "n = sample_node True small_pdf"
  define st where "st = sample_checker [(''small.pdf'', sample_node True small_pdf)]"
  have found: "fs w ''data/small.pdf'' = Some n"
    and stamp: "fromtimestamp_iso w (st_mtime n) = Inr ''2023-11-14T22:13:20''"
    and node: "is_regular n" "may_read n" "content n \<noteq> []" "length (content n) < 1024"
    by (simp_all add: w_def n_def sample_env_def sample_node_def small_pdf_def)
  have shape: "length small_pdf = 14" "startswith small_pdf pdf_magic"
      "contains small_pdf eof_marker"
    by (simp_all add: small_pdf_def startswith_def pdf_magic_def eof_marker_def)
  have valid: "dict_get (check_pdf_file w ''data/small.pdf'') ''format_valid'' = Some (PBool True)"
    using node(4) shape(2)
    by (simp add: check_pdf_file_def open_rb_readable [OF found node(1,2)] seek_end_def Let_def
          dict_get_def n_def sample_node_def startswith_def pdf_magic_def small_pdf_def)
  note probe = pdf_short_file [OF found node(1,2,4)]
  have "status_of (fst (check_file_integrity w st ''data/small.pdf'')) = Some (PStr ''CORRUPTED'')"
    using verdict_by_handler(1) [OF found stamp node(2,3), of st "check_pdf_file w"] probe(1)
    by (simp add: sample_suffix handler_of dict_has_def dict_get_def)
  with shape valid probe show ?thesis
    by (simp add: w_def st_def sample_verdict_def)
qed







section \<open>Claims about the aggregator and the command line\<close>

lemma tally_snoc:
  "tally s (rs @ [r]) = tally s rs + (if status_of r = Some (PStr s) then 1 else 0)"
  by (simp add: tally_def)

lemma verdict_status_mem:
  fixes st :: "'a checker_scheme"
  shows "\<exists>s \<in> set [''INTACT'', ''CORRUPTED'', ''INACCESSIBLE'', ''UNKNOWN''].
           status_of (fst (check_file_integrity w st p)) = Some (PStr s)"
  by (simp add: verdict_status [OF refl])

lemma enhancement_keeps:
  fixes st :: "'a checker_scheme"
  shows "results (check_excel_enhancement w st) = results st"
    and "total_files (summary (check_excel_enhancement w st)) = total_files (summary st)"
    and "intact_files (summary (check_excel_enhancement w st)) = intact_files (summary st)"
    and "corrupted_files (summary (check_excel_enhancement w st)) = corrupted_files (summary st)"
    and "inaccessible_files (summary (check_excel_enhancement w st))
           = inaccessible_files (summary st)"
  by (simp_all add: check_excel_enhancement_def set_enhanced_def Let_def split: sum.splits)

lemma check_keeps:
  fixes st :: "'a checker_scheme"
  shows "results (snd (check_file_integrity w st p)) = results st"
    and "total_files (summary (snd (check_file_integrity w st p))) = total_files (summary st)"
    and "intact_files (summary (snd (check_file_integrity w st p))) = intact_files (summary st)"
    and "corrupted_files (summary (snd (check_file_integrity w st p)))
           = corrupted_files (summary st)"
    and "inaccessible_files (summary (snd (check_file_integrity w st p)))
           = inaccessible_files (summary st)"
proof -
  have "snd (check_file_integrity w st p) = st
      \<or> snd (check_file_integrity w st p) = count_excel (check_excel_enhancement w st)"
  proof (cases rule: basic_cases [of w p])
    case missing
    then show ?thesis by (simp add: check_inaccessible_missing)
  next
    case (time_error n e)
    then show ?thesis by (simp add: check_inaccessible_time)
  next
    case (ok n t)
    then show ?thesis by (simp add: check_accessible_state)
  qed
  then show "results (snd (check_file_integrity w st p)) = results st"
    and "total_files (summary (snd (check_file_integrity w st p))) = total_files (summary st)"
    and "intact_files (summary (snd (check_file_integrity w st p))) = intact_files (summary st)"
    and "corrupted_files (summary (snd (check_file_integrity w st p)))
           = corrupted_files (summary st)"
    and "inaccessible_files (summary (snd (check_file_integrity w st p)))
           = inaccessible_files (summary st)"
    by (auto simp: count_excel_def enhancement_keeps)
qed

lemma process_file_agrees:
  fixes st :: "'a checker_scheme"
  assumes "counters_agree st"
  shows "counters_agree (process_file w st p)"
proof -
  obtain s where s: "s \<in> set [''INTACT'', ''CORRUPTED'', ''INACCESSIBLE'', ''UNKNOWN'']"
    "status_of (fst (check_file_integrity w st p)) = Some (PStr s)"
    using verdict_status_mem [of w st p] by blast
  from s(1) consider "s = ''INTACT''" | "s = ''CORRUPTED''" | "s = ''INACCESSIBLE''"
    | "s = ''UNKNOWN''"
    by auto
  then show ?thesis
    using assms s(2)
    by cases
      (simp_all add: counters_agree_def process_file_def Let_def count_status_def tally_snoc
         check_keeps)
qed


lemma foldl_preserves:
  assumes "P s" and "\<And>s x. P s \<Longrightarrow> P (f s x)"
  shows "P (foldl f s xs)"
  using assms(1) by (induction xs arbitrary: s) (simp_all add: assms(2))

lemma scan_directories_agrees:
  fixes st :: "'a checker_scheme"
  assumes "counters_agree st"
  shows "counters_agree (scan_directories w st)"
proof -
  have entry: "counters_agree (scan_walk_entry w s e)" if "counters_agree s" for s :: "'a checker_scheme" and e
    using that
    by (cases e) (simp add: scan_walk_entry_def foldl_preserves process_file_agrees)
  have directory: "counters_agree (scan_directory w s d)" if "counters_agree s"
    for s :: "'a checker_scheme" and d
    using that by (simp add: scan_directory_def foldl_preserves entry)
  show ?thesis
    unfolding scan_directories_def
    by (rule foldl_preserves [where P = counters_agree, OF assms directory])
qed

lemma custom_scan_loop_agrees:
  assumes "counters_agree st"
  shows "counters_agree (snd (custom_scan_loop w st ds))"
  using assms
proof (induction ds arbitrary: st)
  case Nil
  then show ?case by simp
next
  case (Cons d ds)
  have step: "counters_agree (if should_check_file s p then process_file w s p else s)"
    if "counters_agree s" for s p
    using that by (simp add: process_file_agrees)
  have entry: "counters_agree (custom_walk_entry w s e)" if "counters_agree s" for s e
    using that
    by (cases e) (simp add: custom_walk_entry_def Let_def foldl_preserves process_file_agrees)
  have walked: "counters_agree (foldl (custom_walk_entry w) st (os_walk w d))"
    by (rule foldl_preserves [where P = counters_agree, OF Cons.prems entry])
  have listed: "counters_agree (custom_list_items w st d items)" for items
    unfolding custom_list_items_def
    by (rule foldl_preserves [where P = counters_agree, OF Cons.prems])
       (simp add: Let_def process_file_agrees)
  show ?case
    using Cons.prems Cons.IH [OF Cons.prems] Cons.IH [OF walked] Cons.IH [OF listed]
    by (simp split: sum.splits)
qed

lemma init_agrees:
  "counters_agree (init_checker w dirs fmt auto_install)"
  "counters_agree (init_custom_checker w dirs rec types auto_install)"
  by (simp_all add: counters_agree_def init_checker_def init_custom_checker_def init_summary_def
        tally_def)

text \<open>
  Claim C1, amended. After every scan, by \<^verbatim>\<open>FileIntegrityChecker.scan_directories\<close> and
  by \<^verbatim>\<open>CustomFileChecker.scan_directories\<close> alike, \<^verbatim>\<open>total_files\<close> is the number of
  recorded verdicts, \<^verbatim>\<open>intact_files\<close>, \<^verbatim>\<open>corrupted_files\<close> and \<^verbatim>\<open>inaccessible_files\<close>
  are the numbers of verdicts with these statuses, and these three counters plus the
  number of UNKNOWN verdicts equal \<^verbatim>\<open>total_files\<close>.
\<close>

theorem counters_sum_with_unknown:
  "counters_agree (scan_directories w (init_checker w dirs fmt auto_install))
   \<and> counters_agree
       (snd (custom_scan_directories w (init_custom_checker w dirs rec types auto_install)))"
  by (simp add: scan_directories_agrees custom_scan_directories_def custom_scan_loop_agrees
        init_agrees)

text \<open>The scan of the example directory processes its one file.\<close>

lemma sample_scan_unfold:
  assumes "path_join ''data'' name = ''data/'' @ name"
    and "lower (path_suffix (''data/'' @ name)) \<notin> set [''.xlsx'', ''.xls'']"
  shows "results (sample_scan name r bs) = [sample_verdict name r bs]"
    and "summary (sample_scan name r bs) =
           count_status (init_summary (sample_env [(name, sample_node r bs)]))
             (sample_verdict name r bs)"
proof -
  define w where "w = sample_env [(name, sample_node r bs)]"
  define st where "st = sample_checker [(name, sample_node r bs)]"
  define p where "p = ''data/'' @ name"
  have dirs: "directories st = [''data'']" "results st = []" "summary st = init_summary w"
    by (simp_all add: st_def w_def sample_checker_def init_checker_def)
  have present: "path_exists w ''data''" "os_walk w ''data'' = [(''data'', [], [name])]"
    by (simp_all add: w_def sample_env_def path_exists_def)
  have joined: "path_join ''data'' name = p"
    by (simp only: assms(1) p_def)
  have scan: "sample_scan name r bs = process_file w st p"
    by (simp add: sample_scan_def scan_directories_def scan_directory_def scan_walk_entry_def
          dirs present joined flip: w_def st_def)
  have "snd (check_file_integrity w st p) =
           (if lower (path_suffix p) \<in> set [''.xlsx'', ''.xls'']
            then count_excel (check_excel_enhancement w st) else st)"
    unfolding w_def p_def by (rule check_accessible_state [OF sample_fs])
  moreover have "lower (path_suffix p) \<notin> set [''.xlsx'', ''.xls'']"
    by (simp only: assms(2) p_def not_False_eq_True)
  ultimately have state: "snd (check_file_integrity w st p) = st"
    by simp
  have verdict: "fst (check_file_integrity w st p) = sample_verdict name r bs"
    by (simp only: sample_verdict_def w_def st_def p_def)
  show "results (sample_scan name r bs) = [sample_verdict name r bs]"
    and "summary (sample_scan name r bs) =
           count_status (init_summary (sample_env [(name, sample_node r bs)]))
             (sample_verdict name r bs)"
    by (simp_all add: scan process_file_def Let_def state verdict dirs flip: w_def)
qed

lemma sample_paths:
  "path_join ''data'' ''empty.csv'' = ''data/'' @ ''empty.csv''"
  "lower (path_suffix (''data/'' @ ''empty.csv'')) \<notin> set [''.xlsx'', ''.xls'']"
  "path_join ''data'' ''a.json'' = ''data/'' @ ''a.json''"
  "lower (path_suffix (''data/'' @ ''a.json'')) \<notin> set [''.xlsx'', ''.xls'']"
  by (simp_all add: path_join_def startswith_def path_suffix_def basename_def lower_def
        lower_char_def)

text \<open>
  Claim C1, as stated, fails: the summary has no counter for UNKNOWN files. After the
  scan of a directory that holds one empty readable file, \<^verbatim>\<open>total_files\<close> is 1 and the
  three status counters are 0.
\<close>

theorem empty_file_in_no_counter:
  "map status_of (results (sample_scan ''empty.csv'' True [])) = [Some (PStr ''UNKNOWN'')]
   \<and> total_files (summary (sample_scan ''empty.csv'' True [])) = 1
   \<and> intact_files (summary (sample_scan ''empty.csv'' True [])) = 0
   \<and> corrupted_files (summary (sample_scan ''empty.csv'' True [])) = 0
   \<and> inaccessible_files (summary (sample_scan ''empty.csv'' True [])) = 0
   \<and> intact_files (summary (sample_scan ''empty.csv'' True []))
      + corrupted_files (summary (sample_scan ''empty.csv'' True []))
      + inaccessible_files (summary (sample_scan ''empty.csv'' True []))
      \<noteq> total_files (summary (sample_scan ''empty.csv'' True []))"
proof -
  have status: "status_of (sample_verdict ''empty.csv'' True []) = Some (PStr ''UNKNOWN'')"
    by (simp add: sample_verdict_unfold status_of_def dict_get_def)
  show ?thesis
    by (simp add: sample_scan_unfold [OF sample_paths(1,2)] status count_status_def
          init_summary_def)
qed

theorem counters_sum_with_unknown_witness:
  "counters_agree (sample_scan ''empty.csv'' True [])
   \<and> tally ''UNKNOWN'' (results (sample_scan ''empty.csv'' True [])) = 1"
proof -
  have status: "status_of (sample_verdict ''empty.csv'' True []) = Some (PStr ''UNKNOWN'')"
    by (simp add: sample_verdict_unfold status_of_def dict_get_def)
  have "tally ''UNKNOWN'' (results (sample_scan ''empty.csv'' True [])) = 1"
    by (simp add: sample_scan_unfold [OF sample_paths(1,2)] tally_def status)
  with counters_sum_with_unknown [of "sample_env [(''empty.csv'', sample_node True [])]"
      "[''data'']" "''json''" False]
  show ?thesis
    by (simp add: sample_scan_def sample_checker_def)
qed



end
